theory Spec2Isabelle
  imports Complex_Main
begin

section \<open>Errors and arrays\<close>

text \<open>
  The stages of \<^verbatim>\<open>ginga/util/stages/render.py\<close> raise \<^verbatim>\<open>StageError\<close> themselves;
  the other Python exceptions are the ones the interpreter or numpy raises on the way
  (unpacking a shape of the wrong length, an attribute of \<^verbatim>\<open>None\<close>, an index out of
  range, a tag that a channel order does not hold).
\<close>

datatype error =
    StageError string
  | ValueError string
  | IndexError string
  | AttributeError string
  | KeyError string
  | TypeError string

fun is_StageError :: "error + 'b \<Rightarrow> bool" where
  "is_StageError (Inl (StageError m)) = True"
| "is_StageError r = False"

fun raises :: "error + 'b \<Rightarrow> bool" where
  "raises (Inl e) = True"
| "raises (Inr v) = False"

text \<open>
  A numpy array is its shape and its elements in row-major (C) order. The element type
  stays a parameter: the stages handle \<^verbatim>\<open>uint8\<close> rasters, index arrays and float
  image data alike.
\<close>

datatype 'a ndarray = NDArray (shape: "nat list") (elems: "'a list")

definition ndim :: "'a ndarray \<Rightarrow> nat" where
  "ndim a = length (shape a)"

text \<open>\<^verbatim>\<open>a.shape[-1]\<close>, the last-axis extent, for an array of at least one axis.\<close>

definition last_extent :: "'a ndarray \<Rightarrow> nat" where
  "last_extent a = last (shape a)"

text \<open>The block of \<open>k\<close> elements number \<open>i\<close> of a flat buffer.\<close>

definition block :: "nat \<Rightarrow> 'a list \<Rightarrow> nat \<Rightarrow> 'a list" where
  "block k xs i = take k (drop (i * k) xs)"

text \<open>
  Python's slice bounds on an axis of extent \<open>n\<close>: a negative bound counts from the
  end, and both are clamped into \<open>0..n\<close>.
\<close>

definition slice_bound :: "nat \<Rightarrow> int \<Rightarrow> nat" where
  "slice_bound n i = (if i < 0 then nat (max 0 (i + int n)) else min (nat i) n)"

text \<open>
  \<^verbatim>\<open>data[y1:y2, x1:x2]\<close> on an array of at least two axes: the rows \<open>y1..y2\<close> and of
  each the columns \<open>x1..x2\<close>, bounds as Python reads them; an empty range when the
  upper bound is not above the lower one. The trailing axes are kept whole.
\<close>

definition slice2 :: "'a ndarray \<Rightarrow> int \<times> int \<Rightarrow> int \<times> int \<Rightarrow> 'a ndarray" where
  "slice2 a ys xs =
     (case shape a of
        h # w # rest \<Rightarrow>
          (let px = prod_list rest;
               r1 = slice_bound h (fst ys); r2 = slice_bound h (snd ys);
               c1 = slice_bound w (fst xs); c2 = slice_bound w (snd xs)
           in NDArray ((r2 - r1) # (c2 - c1) # rest)
                (concat (map (\<lambda>r. concat (map (\<lambda>c. block px (elems a) (r * w + c)) [c1..<c2]))
                   [r1..<r2])))
      | _ \<Rightarrow> a)"

text \<open>\<^verbatim>\<open>np.flipud\<close>: the blocks along the first axis in reverse order.\<close>

definition flipud :: "'a ndarray \<Rightarrow> 'a ndarray" where
  "flipud a =
     (case shape a of
        h # rest \<Rightarrow>
          NDArray (shape a) (concat (map (block (prod_list rest) (elems a)) (rev [0..<h])))
      | [] \<Rightarrow> a)"

text \<open>The pixels of an array: its blocks along the last axis.\<close>

definition pixels :: "'a ndarray \<Rightarrow> 'a list list" where
  "pixels a = map (block (last (shape a)) (elems a)) [0..<prod_list (butlast (shape a))]"

text \<open>
  Arrays that a stage may write to live in a heap: an address is a position in the
  list, a new array goes to its end. A variable of the source that holds an array
  holds an address here, so that writing through it is seen by every holder.
\<close>

type_synonym 'a heap = "'a ndarray list"

section \<open>The stage contract\<close>

text \<open>
  Modelled from the spec: \<^verbatim>\<open>Stage.verify_2d\<close> of \<^verbatim>\<open>stages/base.py\<close>, which is not
  among the sources. The spec: a validation primitive checks that the input has at least
  two dimensions; a \<^verbatim>\<open>None\<close> input is a valid "nothing to do" signal distinct from a
  malformed buffer.
\<close>

definition verify_2d :: "'a ndarray option \<Rightarrow> error + unit" where
  "verify_2d data =
     (case data of
        None \<Rightarrow> Inr ()
      | Some d \<Rightarrow>
          if ndim d < 2 then Inl (StageError ''Expecting a 2D or greater array in final stage'')
          else Inr ())"

text \<open>The viewer state a run reads: \<^verbatim>\<open>state.win_dim\<close>, \<^verbatim>\<open>state.order\<close>, \<^verbatim>\<open>state.ctr\<close>.\<close>

record render_state =
  win_dim :: "int \<times> int"
  order :: string
  ctr :: "int \<times> int"

section \<open>Channel reordering\<close>

text \<open>The position of a tag in a channel order, as \<^verbatim>\<open>str.index\<close> finds it.\<close>

fun index_of :: "'c \<Rightarrow> 'c list \<Rightarrow> nat option" where
  "index_of c [] = None"
| "index_of c (x # xs) =
     (if c = x then Some 0 else map_option Suc (index_of c xs))"

text \<open>
  Modelled from the spec: \<^verbatim>\<open>trcalc.reorder_image(dst_order, src_arr, src_order)\<close>,
  which is not among the sources. The spec: it converts the source channel order to the
  required order. The result has one band per tag of the destination order, the source
  band that carries this tag; a destination alpha that the source lacks is a band of
  the opaque value \<open>amax\<close>; equal orders leave the raster as it is. The bands are the
  positions along the last axis, as numpy indexes them (\<^verbatim>\<open>src_arr[..., idx]\<close>). Nothing
  is refused but what cannot be indexed: a tag other than alpha that the source order
  does not hold (\<^verbatim>\<open>str.index\<close> raises \<^verbatim>\<open>ValueError\<close>), and a band position past the
  raster's last axis (numpy raises \<^verbatim>\<open>IndexError\<close>).
\<close>

definition reorder_pixel :: "'a \<Rightarrow> string \<Rightarrow> string \<Rightarrow> 'a list \<Rightarrow> 'a list" where
  "reorder_pixel amax dst_order src_order px =
     map (\<lambda>c. case index_of c src_order of Some i \<Rightarrow> px ! i | None \<Rightarrow> amax) dst_order"

definition band_missing :: "string \<Rightarrow> 'a ndarray \<Rightarrow> string \<Rightarrow> bool" where
  "band_missing dst_order src_arr src_order =
     (shape src_arr = [] \<or>
      (\<exists>c \<in> set dst_order.
         case index_of c src_order of Some i \<Rightarrow> last (shape src_arr) \<le> i | None \<Rightarrow> False))"

definition reorder_image :: "'a \<Rightarrow> string \<Rightarrow> 'a ndarray \<Rightarrow> string \<Rightarrow> error + 'a ndarray" where
  "reorder_image amax dst_order src_arr src_order =
     (if dst_order = src_order then Inr src_arr
      else if \<exists>c \<in> set dst_order. c \<noteq> CHR ''A'' \<and> c \<notin> set src_order
        then Inl (ValueError ''substring not found'')
      else if band_missing dst_order src_arr src_order
        then Inl (IndexError ''index out of bounds'')
      else Inr (NDArray (butlast (shape src_arr) @ [length dst_order])
                  (concat (map (reorder_pixel amax dst_order src_order) (pixels src_arr)))))"

section \<open>The Output stage\<close>

text \<open>
  \<^verbatim>\<open>Output.run\<close>. It reads the predecessor's raster \<open>data\<close>, the viewer state, the
  anchor \<open>dst\<close> that Rotate left in the context and the renderer's channel order
  \<open>rgb_order\<close>; it sets \<^verbatim>\<open>out_order\<close> and publishes the raster. The result is the pair
  of both.
\<close>

definition Output_run ::
  "bool \<Rightarrow> 'a \<Rightarrow> string \<Rightarrow> render_state \<Rightarrow> int \<times> int \<Rightarrow> 'a ndarray option
     \<Rightarrow> error + (string \<times> 'a ndarray option)" where
  "Output_run bypass amax rgb_order st dst data =
     (case verify_2d data of
        Inl e \<Rightarrow> Inl e
      | Inr _ \<Rightarrow>
          if \<not> bypass then
            (case data of
               None \<Rightarrow> Inl (AttributeError ''NoneType object has no attribute shape'')
             | Some d \<Rightarrow>
                 (let ht = int (shape d ! 0); wd = int (shape d ! 1);
                      win_wd = fst (win_dim st); win_ht = snd (win_dim st)
                  in if wd < win_wd \<or> ht < win_ht
                     then Inl (StageError ''pipeline output doesn't cover window'')
                     else
                       (let dst_x = fst dst; dst_y = snd dst
                        in if dst_x > 0 \<or> dst_y > 0
                           then Inl (StageError ''pipeline calculated dst is not correct'')
                           else
                             (let x1 = \<bar>dst_x\<bar>; y1 = \<bar>dst_y\<bar>;
                                  cut = slice2 d (y1, y1 + win_ht) (x1, x1 + win_wd)
                              in case reorder_image amax rgb_order cut (order st) of
                                   Inl e \<Rightarrow> Inl e
                                 | Inr out \<Rightarrow> Inr (rgb_order, Some out)))))
          else Inr (order st, data))"

text \<open>What a stage run published: the raster's shape, when it published a raster.\<close>

definition raster_shape :: "error + ('c \<times> 'a ndarray option) \<Rightarrow> nat list option" where
  "raster_shape r = (case r of Inr (c, Some a) \<Rightarrow> Some (shape a) | _ \<Rightarrow> None)"

section \<open>The CreateBg stage\<close>

text \<open>
  \<^verbatim>\<open>int(np.sqrt(n) + slop)\<close> for a natural number \<open>n\<close> and a natural \<open>slop\<close> is
  \<open>\<lfloor>sqrt n\<rfloor> + slop\<close>: \<^verbatim>\<open>int\<close> truncates, and the sum is not negative. The integer
  square root is computed digit by digit, with exact arithmetic in place of the
  double-precision root (they agree on every window size a display can have).
\<close>

fun floor_sqrt :: "nat \<Rightarrow> nat" where
  "floor_sqrt n =
     (if n < 2 then n
      else (let r = 2 * floor_sqrt (n div 4)
            in if (r + 1) * (r + 1) \<le> n then r + 1 else r))"

declare floor_sqrt.simps [simp del]

text \<open>
  Modelled from the spec: \<^verbatim>\<open>trcalc.make_filled_array(shp, dtype, order, r, g, b, a)\<close>,
  which is not among the sources. The spec: the canvas is filled with the configured
  background color in the declared channel order. Every pixel holds, per tag of the
  order, the component of that name; the components are taken as the buffer stores them
  (the scaling of the viewer's fractions to the range of \<^verbatim>\<open>dtype\<close> happens inside the
  absent helper). A tag that names no component is a \<^verbatim>\<open>KeyError\<close>.
\<close>

definition bgval :: "'a \<Rightarrow> 'a \<Rightarrow> 'a \<Rightarrow> 'a \<Rightarrow> char \<Rightarrow> 'a option" where
  "bgval r g b a c =
     (if c = CHR ''A'' then Some a
      else if c = CHR ''R'' then Some r
      else if c = CHR ''G'' then Some g
      else if c = CHR ''B'' then Some b
      else None)"

definition bg_pixel :: "'a \<Rightarrow> 'a \<Rightarrow> 'a \<Rightarrow> 'a \<Rightarrow> string \<Rightarrow> 'a list" where
  "bg_pixel r g b a ord = map (\<lambda>c. the (bgval r g b a c)) ord"

definition make_filled_array ::
  "nat \<times> nat \<times> nat \<Rightarrow> string \<Rightarrow> 'a \<Rightarrow> 'a \<Rightarrow> 'a \<Rightarrow> 'a \<Rightarrow> error + 'a ndarray" where
  "make_filled_array shp ord r g b a =
     (case shp of (ht, wd, depth) \<Rightarrow>
        if \<exists>c \<in> set ord. bgval r g b a c = None then Inl (KeyError ord)
        else if depth \<noteq> length ord then Inl (ValueError ''could not broadcast'')
        else Inr (NDArray [ht, wd, depth] (concat (replicate (ht * wd) (bg_pixel r g b a ord)))))"

text \<open>
  \<^verbatim>\<open>CreateBg.run\<close>. \<open>prev_stage\<close> is the handle to the predecessor (\<open>None\<close> for the
  first stage), \<open>bg\<close> the viewer's background color and \<open>opaque\<close> the stored value of
  the alpha \<^verbatim>\<open>1.0\<close>. The result is what the stage sets in the context
  (\<^verbatim>\<open>org_dim\<close>, \<^verbatim>\<open>org_off\<close>; nothing when bypassed) and the raster it publishes.
\<close>

definition CreateBg_side :: "render_state \<Rightarrow> int" where
  "CreateBg_side st =
     (let win_wd = fst (win_dim st); win_ht = snd (win_dim st); slop = 20
      in int (floor_sqrt (nat (win_wd * win_wd + win_ht * win_ht))) + slop)"

definition CreateBg_run ::
  "bool \<Rightarrow> 'p option \<Rightarrow> render_state \<Rightarrow> 'a \<times> 'a \<times> 'a \<Rightarrow> 'a
     \<Rightarrow> error + (((int \<times> int) \<times> (int \<times> int)) option \<times> 'a ndarray option)" where
  "CreateBg_run bypass prev_stage st bg opaque =
     (if prev_stage \<noteq> None then Inl (StageError ''viewer-createbg in wrong location'')
      else if bypass then Inr (None, None)
      else
        (let side = CreateBg_side st; wd = side; ht = side;
             ncx = wd div 2; ncy = ht div 2;
             depth = length (order st)
         in case bg of (r, g, b) \<Rightarrow>
              (case make_filled_array (nat ht, nat wd, depth) (order st) r g b opaque of
                 Inl e \<Rightarrow> Inl e
               | Inr res_np \<Rightarrow> Inr (Some ((wd, ht), (ncx, ncy)), Some res_np))))"

section \<open>The Rotate stage\<close>

text \<open>
  \<^verbatim>\<open>np.isclose(a, b)\<close> with numpy's default tolerances, on exact numbers:
  \<open>\<bar>a - b\<bar> \<le> atol + rtol * \<bar>b\<bar>\<close> with \<open>atol = 1e-8\<close> and \<open>rtol = 1e-5\<close>.
\<close>

definition isclose :: "real \<Rightarrow> real \<Rightarrow> bool" where
  "isclose a b = (\<bar>a - b\<bar> \<le> 1 / 10 ^ 8 + 1 / 10 ^ 5 * \<bar>b\<bar>)"

text \<open>
  \<^verbatim>\<open>Rotate.run\<close>, on the heap \<open>h\<close> and the address \<open>data\<close> of the predecessor's
  raster. \<open>rot_deg\<close> is \<^verbatim>\<open>viewer.get_rotation()\<close>, \<open>invert_y\<close> the viewer's
  \<^verbatim>\<open>_invert_y\<close>, \<open>off\<close> the offset FlipSwap left in the context. \<open>rotate_clip\<close> stands
  for \<^verbatim>\<open>trcalc.rotate_clip\<close> (not among the sources): \<^verbatim>\<open>np.copy\<close> puts a copy of the
  raster on the heap, and \<^verbatim>\<open>rotate_clip(data, -rot_deg, out=data)\<close> writes the rotated
  raster into that copy. \<^verbatim>\<open>np.flipud\<close> gives a view, kept here as an array of its own.
  The result is the heap, the anchor \<^verbatim>\<open>dst\<close> the stage sets and the address it
  publishes. Without a raster the stage cannot read a shape: numpy refuses to rotate
  or flip \<^verbatim>\<open>None\<close>, and \<^verbatim>\<open>None.shape\<close> is an \<^verbatim>\<open>AttributeError\<close>.
\<close>

definition Rotate_run ::
  "bool \<Rightarrow> real \<Rightarrow> bool \<Rightarrow> ('a ndarray \<Rightarrow> real \<Rightarrow> 'a ndarray) \<Rightarrow> render_state \<Rightarrow> int \<times> int
     \<Rightarrow> 'a heap \<times> nat option \<Rightarrow> error + ('a heap \<times> (int \<times> int) \<times> nat option)" where
  "Rotate_run bypass rot_deg invert_y rotate_clip st off hr =
     (case hr of (h, data) \<Rightarrow>
      (case verify_2d (map_option (nth h) data) of
         Inl e \<Rightarrow> Inl e
       | Inr _ \<Rightarrow>
           (case data of
              None \<Rightarrow>
                if \<not> bypass \<and> (\<not> isclose rot_deg 0 \<or> invert_y)
                then Inl (ValueError ''Input must be >= 1-d'')
                else Inl (AttributeError ''NoneType object has no attribute shape'')
            | Some r \<Rightarrow>
                (let rotating = (\<not> bypass \<and> \<not> isclose rot_deg 0);
                     h0 = (if rotating then h @ [h ! r] else h);
                     r1 = (if rotating then length h else r);
                     h1 = (if rotating then h0[r1 := rotate_clip (h0 ! r1) (- rot_deg)] else h0);
                     flipping = (\<not> bypass \<and> invert_y);
                     h2 = (if flipping then h1 @ [flipud (h1 ! r1)] else h1);
                     r2 = (if flipping then length h1 else r1);
                     ht = int (shape (h2 ! r2) ! 0);
                     xoff = fst off; yoff = snd off;
                     ctr_x = fst (ctr st); ctr_y = snd (ctr st);
                     dst_x = ctr_x - xoff; dst_y = ctr_y - (ht - yoff)
                 in Inr (h2, (dst_x, dst_y), Some r2)))))"

section \<open>Arrays along the last axis\<close>

text \<open>\<^verbatim>\<open>data[..., k]\<close>: the band \<open>k\<close> of every pixel, one axis less.\<close>

definition take_band :: "'a ndarray \<Rightarrow> nat \<Rightarrow> error + 'a ndarray" where
  "take_band a k =
     (if shape a = [] \<or> last (shape a) \<le> k then Inl (IndexError ''index out of bounds'')
      else Inr (NDArray (butlast (shape a)) (map (\<lambda>p. p ! k) (pixels a))))"

text \<open>\<^verbatim>\<open>data[..., 0:k]\<close>: the first \<open>k\<close> bands of every pixel (all of them when there are fewer).\<close>

definition take_bands :: "'a ndarray \<Rightarrow> nat \<Rightarrow> error + 'a ndarray" where
  "take_bands a k =
     (if shape a = [] then Inl (IndexError ''too many indices for array'')
      else Inr (NDArray (butlast (shape a) @ [min k (last (shape a))])
                  (concat (map (take k) (pixels a)))))"

text \<open>
  \<^verbatim>\<open>np.insert(a, k, np.zeros(a.shape[:2]), axis=2)\<close> on a 3-D array: a new array with a
  band of zeros before band \<open>k\<close>.
\<close>

definition insert_band :: "'a::zero ndarray \<Rightarrow> nat \<Rightarrow> error + 'a ndarray" where
  "insert_band a k =
     (if ndim a \<noteq> 3 then Inl (IndexError ''axis 2 is out of bounds'')
      else if last (shape a) < k then Inl (IndexError ''index out of bounds'')
      else Inr (NDArray (butlast (shape a) @ [Suc (last (shape a))])
                  (concat (map (\<lambda>p. take k p @ [0] @ drop k p) (pixels a)))))"

text \<open>
  \<^verbatim>\<open>a[..., k] = v\<close>: band \<open>k\<close> of every pixel of \<open>a\<close> is overwritten with the element of
  \<open>v\<close> at the pixel's place. \<open>v\<close> has the shape of \<open>a\<close> less its last axis (the alpha
  that Reorder splits off a raster has the raster's rows and columns; numpy's
  broadcasting of a smaller \<open>v\<close> is left out and refused).
\<close>

definition set_band :: "'a ndarray \<Rightarrow> nat \<Rightarrow> 'a ndarray \<Rightarrow> error + 'a ndarray" where
  "set_band a k v =
     (if shape a = [] \<or> last (shape a) \<le> k then Inl (IndexError ''index out of bounds'')
      else if shape v \<noteq> butlast (shape a) then Inl (ValueError ''could not broadcast'')
      else Inr (NDArray (shape a)
                  (concat (map (\<lambda>j. (pixels a ! j)[k := elems v ! j])
                     [0..<prod_list (butlast (shape a))]))))"

text \<open>\<^verbatim>\<open>int(np.round(x))\<close>: numpy rounds a half to the even neighbour.\<close>

definition np_round :: "real \<Rightarrow> int" where
  "np_round x =
     (let f = \<lfloor>x\<rfloor>; r = x - of_int f
      in if r < 1 / 2 then f else if 1 / 2 < r then f + 1 else if even f then f else f + 1)"

text \<open>\<^verbatim>\<open>int(x)\<close> on a float: truncation towards zero.\<close>

definition trunc :: "real \<Rightarrow> int" where
  "trunc x = (if 0 \<le> x then \<lfloor>x\<rfloor> else \<lceil>x\<rceil>)"

section \<open>The overlay objects, their caches and mini-pipelines\<close>

text \<open>The image of a canvas object: its buffer, its channel order, and whether it is
  an \<^verbatim>\<open>RGBImage\<close>.\<close>

record 'a image =
  data_np :: "'a ndarray"
  img_order :: string
  is_rgb :: bool

text \<open>An RGB mapper (\<^verbatim>\<open>ginga.RGBMap\<close>, not among the sources): its table size and its
  lookup \<^verbatim>\<open>get_rgb_array(arr, order=...)\<close>.\<close>

record 'a rgbmapper =
  hash_size :: int
  get_rgb_array :: "'a ndarray \<Rightarrow> string \<Rightarrow> 'a ndarray"

text \<open>An autocuts object is its \<^verbatim>\<open>cut_levels(data, loval, hival, vmin, vmax)\<close>.\<close>

type_synonym 'a autocuts = "'a ndarray \<Rightarrow> real \<Rightarrow> real \<Rightarrow> int \<Rightarrow> int \<Rightarrow> 'a ndarray"

text \<open>The attributes of a canvas image that the stages read.\<close>

record 'a cvs_img =
  image :: "'a image option"
  img_x :: real
  img_y :: real
  to_data :: "real \<times> real \<Rightarrow> real \<times> real"
  scale_x :: real
  scale_y :: real
  interpolation :: "string option"
  flipy :: bool
  alpha :: real
  rgbmap :: "'a rgbmapper option"
  autocuts :: "'a autocuts option"
  cuts :: "(real \<times> real) option"

text \<open>What the stages read of the viewer.\<close>

record 'a viewer =
  draw_rect :: "(real \<times> real) list"
  scale_xy :: "real \<times> real"
  pan :: "real \<times> real"
  data_off :: real
  interp_setting :: string
  v_rgbmap :: "'a rgbmapper"
  v_autocuts :: "'a autocuts"
  v_cuts :: "real \<times> real"

text \<open>
  The functions of \<^verbatim>\<open>ginga.trcalc\<close> and numpy's dtype conversions that the
  mini-pipeline stages call and that are not among the sources: they are parameters of
  the model. \<open>merge_clip\<close> is \<^verbatim>\<open>calc_image_merge_clip\<close>, \<open>scaled_cutout\<close> is
  \<^verbatim>\<open>get_scaled_cutout_basic\<close> (its array result), \<open>as_uint\<close> is the conversion
  \<^verbatim>\<open>astype(np.uint)\<close> applied unless the array is unsigned already, \<open>overlay_image\<close>
  gives the new content of the destination, and \<open>amax\<close> is the largest value of the
  raster's dtype.
\<close>

record 'a trcalc =
  amax :: 'a
  interpolation_methods :: "string list"
  merge_clip :: "real \<times> real \<Rightarrow> real \<times> real \<Rightarrow> real \<times> real \<Rightarrow> real \<times> real \<Rightarrow> real \<times> real
                   \<Rightarrow> (real \<times> real) \<times> (real \<times> real) \<times> (real \<times> real)"
  scaled_cutout :: "'a ndarray \<Rightarrow> real \<Rightarrow> real \<Rightarrow> real \<Rightarrow> real \<Rightarrow> real \<Rightarrow> real \<Rightarrow> string \<Rightarrow> 'a ndarray"
  array_convert :: "'a ndarray \<Rightarrow> 'a ndarray"
  overlay_image :: "'a ndarray \<Rightarrow> int \<times> int \<Rightarrow> 'a ndarray \<Rightarrow> string \<Rightarrow> string \<Rightarrow> real \<Rightarrow> 'a ndarray"
  as_uint :: "'a ndarray \<Rightarrow> 'a ndarray"

text \<open>
  The cache of one overlay object for the viewer, together with the mini-pipeline it
  holds: \<open>built\<close> says that \<^verbatim>\<open>cache.minipipe\<close> is set, \<open>results\<close> are the outputs the
  mini-pipeline's stages have published (by position in the stage list, the address of
  a raster or \<^verbatim>\<open>None\<close>), \<open>stop_req\<close> is the pipeline's stop request, \<open>c_offset\<close> and
  \<open>c_alpha\<close> are the context keys \<^verbatim>\<open>offset\<close> and \<^verbatim>\<open>alpha\<close> that one stage
  leaves to a later one.
\<close>

record ostate =
  built :: bool
  visible :: bool
  drawn :: bool
  results :: "nat option list"
  stop_req :: bool
  c_offset :: "(real \<times> real) option"
  c_alpha :: "nat option"

text \<open>
  Modelled from the spec: \<^verbatim>\<open>Pipeline.send\<close> and \<^verbatim>\<open>Pipeline.get_data\<close> of
  \<^verbatim>\<open>ginga/util/pipeline.py\<close>, which is not among the sources. The spec:
  \<^verbatim>\<open>send(value)\<close> publishes a stage's output; \<^verbatim>\<open>get_data(stage)\<close> fetches a named
  published output. A stage is named by its position \<open>i\<close> in the list; the predecessor
  of the first stage is \<^verbatim>\<open>None\<close>, which has no output to fetch.
\<close>

definition send :: "nat \<Rightarrow> nat option \<Rightarrow> ostate \<Rightarrow> ostate" where
  "send i v s = s\<lparr>results := (results s)[i := v]\<rparr>"

definition get_data :: "nat \<Rightarrow> ostate \<Rightarrow> error + nat option" where
  "get_data i s =
     (if i = 0 \<or> length (results s) < i
      then Inl (AttributeError ''NoneType object has no attribute result'')
      else Inr (results s ! (i - 1)))"

text \<open>
  Modelled from the spec: \<^verbatim>\<open>trcalc.calc_image_merge_clip(p1, p2, dst, q1, q2)\<close>, which
  is not among the sources. The spec: it intersects the visible viewport (in data
  coordinates) with the object's data rectangle and computes the clipped source
  rectangle and the corresponding destination anchor. \<open>p1\<close>, \<open>p2\<close> are the corners of the
  viewport, \<open>dst\<close> is where the object lies, \<open>q1\<close>, \<open>q2\<close> are the corners of its source
  rectangle. What lies left of or above the viewport is trimmed off the near corner and
  moves the anchor; what lies right of or below it is trimmed off the far corner.
\<close>

definition calc_image_merge_clip ::
  "real \<times> real \<Rightarrow> real \<times> real \<Rightarrow> real \<times> real \<Rightarrow> real \<times> real \<Rightarrow> real \<times> real
     \<Rightarrow> (real \<times> real) \<times> (real \<times> real) \<times> (real \<times> real)" where
  "calc_image_merge_clip p1 p2 dst q1 q2 =
     (let x1 = fst p1; y1 = snd p1; x2 = fst p2; y2 = snd p2;
          a1 = fst q1; b1 = snd q1; a2 = fst q2; b2 = snd q2;
          src_wd = a2 - a1; src_ht = b2 - b1;
          ey = max 0 (y1 - snd dst);
          ex = max 0 (x1 - fst dst);
          dst_y = snd dst + ey; dst_x = fst dst + ex;
          fy = max 0 (dst_y + (src_ht - ey) - y2);
          fx = max 0 (dst_x + (src_wd - ex) - x2)
      in ((dst_x, dst_y), (a1 + ex, b1 + ey), (a2 - fx, b2 - fy)))"

section \<open>The mini-pipeline stages\<close>

fun list_min :: "real list \<Rightarrow> real" where
  "list_min [] = 0"
| "list_min (x # xs) = fold min xs x"

fun list_max :: "real list \<Rightarrow> real" where
  "list_max [] = 0"
| "list_max (x # xs) = fold max xs x"

text \<open>
  The padded viewport of \<^verbatim>\<open>Scale.run\<close>, from the corners of the viewer's draw
  rectangle: \<open>((xmin, ymin), (xmax, ymax))\<close>.
\<close>

definition viewport :: "'a viewer \<Rightarrow> (real \<times> real) \<times> (real \<times> real)" where
  "viewport vw =
     (let pad = 1;
          xs = map fst (draw_rect vw); ys = map snd (draw_rect vw);
          xmin = of_int (trunc (list_min xs)) - pad;
          ymin = of_int (trunc (list_min ys)) - pad;
          xmax = of_int (trunc (of_int \<lceil>list_max xs\<rceil>)) + pad;
          ymax = of_int (trunc (of_int \<lceil>list_max ys\<rceil>)) + pad
      in ((xmin, ymin), (xmax, ymax)))"

text \<open>
  The call of \<^verbatim>\<open>trcalc.calc_image_merge_clip\<close> in \<^verbatim>\<open>Scale.run\<close>: the viewport, the
  object's position in data coordinates, and the corners \<open>(0, 0)\<close> and
  \<open>(wd - 1, ht - 1)\<close> of its buffer. The result is the destination anchor and the two
  corners \<open>(a1, b1)\<close>, \<open>(a2, b2)\<close> of the clipped source rectangle.
\<close>

definition Scale_clip ::
  "'a viewer \<Rightarrow> 'a trcalc \<Rightarrow> 'a cvs_img \<Rightarrow> 'a image
     \<Rightarrow> (real \<times> real) \<times> (real \<times> real) \<times> (real \<times> real)" where
  "Scale_clip vw tr img im =
     (let dst = to_data img (img_x img, img_y img);
          ht = shape (data_np im) ! 0; wd = shape (data_np im) ! 1
      in merge_clip tr (fst (viewport vw)) (snd (viewport vw)) dst (0, 0)
           (real wd - 1, real ht - 1))"

text \<open>The test of \<^verbatim>\<open>Scale.run\<close> on the clipped rectangle: "is image completely off the
  screen?"\<close>

definition off_screen :: "(real \<times> real) \<times> (real \<times> real) \<times> (real \<times> real) \<Rightarrow> bool" where
  "off_screen clipped =
     (case clipped of (dst, (a1, b1), (a2, b2)) \<Rightarrow> a2 - a1 \<le> 0 \<or> b2 - b1 \<le> 0)"

text \<open>
  \<^verbatim>\<open>Scale.run\<close>, as stage \<open>i\<close> of its mini-pipeline, on the heap \<open>h\<close> and the object's
  state \<open>s\<close>. A draw rectangle of no corner at all gives an array without rows, and
  \<^verbatim>\<open>pts[0]\<close> is an \<^verbatim>\<open>IndexError\<close>.
\<close>

definition Scale_run ::
  "'a viewer \<Rightarrow> 'a trcalc \<Rightarrow> 'a cvs_img \<Rightarrow> nat \<Rightarrow> 'a heap \<times> ostate \<Rightarrow> error + ('a heap \<times> ostate)" where
  "Scale_run vw tr img i hs =
     (case hs of (h, s) \<Rightarrow>
      (case image img of
         None \<Rightarrow> Inr (h, send i None s)
       | Some im \<Rightarrow>
           (case verify_2d (Some (data_np im)) of
              Inl e \<Rightarrow> Inl e
            | Inr _ \<Rightarrow>
                if draw_rect vw = []
                then Inl (IndexError ''index 0 is out of bounds for axis 0 with size 0'')
                else
                  (case Scale_clip vw tr img im of
                     ((dst_x, dst_y), (a1, b1), (a2, b2)) \<Rightarrow>
                       if a2 - a1 \<le> 0 \<or> b2 - b1 \<le> 0
                       then Inr (h, (send i None s)\<lparr>visible := False, stop_req := True\<rparr>)
                       else
                         (let sx = fst (scale_xy vw) * scale_x img;
                              sy = snd (scale_xy vw) * scale_y img;
                              interp0 = (case interpolation img of
                                           None \<Rightarrow> interp_setting vw | Some m \<Rightarrow> m);
                              interp = (if interp0 \<notin> set (interpolation_methods tr)
                                        then ''basic'' else interp0);
                              cut = scaled_cutout tr (data_np im) a1 b1 a2 b2 sx sy interp;
                              data = (if flipy img then flipud cut else cut);
                              pan_x = fst (pan vw) + data_off vw;
                              pan_y = snd (pan vw) + data_off vw;
                              off_x = (dst_x - pan_x) * fst (scale_xy vw);
                              off_y = (dst_y - pan_y) * snd (scale_xy vw)
                          in Inr (h @ [data],
                                  (send i (Some (length h)) s)
                                    \<lparr>visible := True, c_offset := Some (off_x, off_y)\<rparr>))))))"

text \<open>
  The end of \<^verbatim>\<open>Reorder.run\<close>, on a 3-D raster:
  \<^verbatim>\<open>ht, wd, dp = data.shape; if dp == 1: data = data.reshape((ht, wd))\<close>.
\<close>

definition drop_unit_depth :: "'a ndarray \<Rightarrow> 'a ndarray" where
  "drop_unit_depth a =
     (let ht = shape a ! 0; wd = shape a ! 1; dp = shape a ! 2
      in if dp = 1 then NDArray [ht, wd] (elems a) else a)"

text \<open>
  \<^verbatim>\<open>Reorder.run\<close>. The reordered raster is a new array; the alpha band and the bands
  before it are views of the raster in numpy, kept here as arrays of their own (no
  stage writes to one of them or to the raster under them).
\<close>

definition Reorder_run ::
  "'a trcalc \<Rightarrow> 'a cvs_img \<Rightarrow> render_state \<Rightarrow> nat \<Rightarrow> 'a heap \<times> ostate \<Rightarrow> error + ('a heap \<times> ostate)" where
  "Reorder_run tr img st i hs =
     (case hs of (h, s) \<Rightarrow>
      (case get_data i s of
         Inl e \<Rightarrow> Inl e
       | Inr None \<Rightarrow> Inr (h, send i None s)
       | Inr (Some r) \<Rightarrow>
           (case verify_2d (Some (h ! r)) of
              Inl e \<Rightarrow> Inl e
            | Inr _ \<Rightarrow>
                (case image img of
                   None \<Rightarrow> Inl (AttributeError ''NoneType object has no attribute get_order'')
                 | Some im \<Rightarrow>
                     (let image_order = img_order im
                      in case (if is_rgb im \<and> image_order \<noteq> order st
                               then reorder_image (amax tr) (order st) (h ! r) image_order
                               else Inr (h ! r)) of
                           Inl e \<Rightarrow> Inl e
                         | Inr data \<Rightarrow>
                             (let h1 = (if is_rgb im \<and> image_order \<noteq> order st then h @ [data] else h);
                                  r1 = (if is_rgb im \<and> image_order \<noteq> order st then length h else r)
                              in case index_of (CHR ''A'') image_order of
                                   None \<Rightarrow> Inr (h1, (send i (Some r1) s)\<lparr>c_alpha := None\<rparr>)
                                 | Some a_idx \<Rightarrow>
                                     (case take_band data a_idx of
                                        Inl e \<Rightarrow> Inl e
                                      | Inr alpha_band \<Rightarrow>
                                          (case take_bands data a_idx of
                                             Inl e \<Rightarrow> Inl e
                                           | Inr front \<Rightarrow>
                                               if ndim front \<noteq> 3
                                               then Inl (ValueError ''not enough values to unpack'')
                                               else Inr (h1 @ [alpha_band, drop_unit_depth front],
                                                         (send i (Some (Suc (length h1))) s)
                                                           \<lparr>c_alpha := Some (length h1)\<rparr>)))))))))"

text \<open>
  The first step of \<^verbatim>\<open>Reorder.run\<close> by itself: the raster the stage goes on with (a
  color image in another order than the pipeline's is reordered) and the channel order
  this raster is in. \<open>alpha_last ord k\<close> says that alpha is the last tag of \<open>ord\<close>, at
  position \<open>k\<close>, and stands nowhere else in it.
\<close>

definition reordered :: "'a trcalc \<Rightarrow> 'a image \<Rightarrow> render_state \<Rightarrow> 'a ndarray \<Rightarrow> error + 'a ndarray" where
  "reordered tr im st raster =
     (if is_rgb im \<and> img_order im \<noteq> order st
      then reorder_image (amax tr) (order st) raster (img_order im)
      else Inr raster)"

definition data_order :: "'a image \<Rightarrow> render_state \<Rightarrow> string" where
  "data_order im st = (if is_rgb im \<and> img_order im \<noteq> order st then order st else img_order im)"

definition alpha_last :: "string \<Rightarrow> nat \<Rightarrow> bool" where
  "alpha_last ord k = (index_of (CHR ''A'') ord = Some k \<and> length ord = Suc k)"

text \<open>\<^verbatim>\<open>Cuts.run\<close> (the stage of \<^verbatim>\<open>render.py\<close>).\<close>

definition Cuts_run ::
  "'a viewer \<Rightarrow> 'a trcalc \<Rightarrow> 'a cvs_img \<Rightarrow> nat \<Rightarrow> 'a heap \<times> ostate \<Rightarrow> error + ('a heap \<times> ostate)" where
  "Cuts_run vw tr img i hs =
     (case hs of (h, s) \<Rightarrow>
      (case get_data i s of
         Inl e \<Rightarrow> Inl e
       | Inr None \<Rightarrow> Inr (h, send i None s)
       | Inr (Some r) \<Rightarrow>
           (case verify_2d (Some (h ! r)) of
              Inl e \<Rightarrow> Inl e
            | Inr _ \<Rightarrow>
                (let mapper = (case rgbmap img of Some m \<Rightarrow> m | None \<Rightarrow> v_rgbmap vw);
                     vmin = 0;
                     vmax = hash_size mapper - 1;
                     cutter = (case autocuts img of Some c \<Rightarrow> c | None \<Rightarrow> v_autocuts vw);
                     lohi = (case cuts img of Some c \<Rightarrow> c | None \<Rightarrow> v_cuts vw);
                     res_np = as_uint tr (cutter (h ! r) (fst lohi) (snd lohi) vmin vmax)
                 in Inr (h @ [res_np], send i (Some (length h)) s)))))"

text \<open>\<^verbatim>\<open>RGBMap.run\<close> (the stage of \<^verbatim>\<open>render.py\<close>).\<close>

definition RGBMap_run ::
  "'a viewer \<Rightarrow> 'a trcalc \<Rightarrow> 'a cvs_img \<Rightarrow> render_state \<Rightarrow> nat \<Rightarrow> 'a heap \<times> ostate
     \<Rightarrow> error + ('a heap \<times> ostate)" where
  "RGBMap_run vw tr img st i hs =
     (case hs of (h, s) \<Rightarrow>
      (case get_data i s of
         Inl e \<Rightarrow> Inl e
       | Inr None \<Rightarrow> Inr (h, send i None s)
       | Inr (Some r) \<Rightarrow>
           (case verify_2d (Some (h ! r)) of
              Inl e \<Rightarrow> Inl e
            | Inr _ \<Rightarrow>
                (let mapper = (case rgbmap img of Some m \<Rightarrow> m | None \<Rightarrow> v_rgbmap vw);
                     arr_in = as_uint tr (h ! r);
                     arr_out = get_rgb_array mapper arr_in (order st)
                 in Inr (h @ [arr_out], send i (Some (length h)) s)))))"

text \<open>
  \<^verbatim>\<open>Merge.run\<close>. \<open>dstarr\<close> is the address of the shared destination buffer (the
  context key \<^verbatim>\<open>dstarr\<close>). \<^verbatim>\<open>np.insert\<close> returns a new array; the assignment
  \<^verbatim>\<open>rgbarr[..., a_idx] = alpha\<close> writes to whatever array the variable \<^verbatim>\<open>rgbarr\<close>
  holds at that point; \<^verbatim>\<open>overlay_image\<close> writes to the destination.
\<close>

definition Merge_run ::
  "'a::zero trcalc \<Rightarrow> 'a cvs_img \<Rightarrow> render_state \<Rightarrow> nat \<Rightarrow> nat \<Rightarrow> 'a heap \<times> ostate
     \<Rightarrow> error + ('a heap \<times> ostate)" where
  "Merge_run tr img st dstarr i hs =
     (case hs of (h, s) \<Rightarrow>
      (case get_data i s of
         Inl e \<Rightarrow> Inl e
       | Inr None \<Rightarrow> Inr (h, s)
       | Inr (Some r) \<Rightarrow>
           (case verify_2d (Some (h ! r)) of
              Inl e \<Rightarrow> Inl e
            | Inr _ \<Rightarrow>
                if ndim (h ! r) \<noteq> 3 \<or> shape (h ! r) ! 2 < 3
                then Inl (StageError ''Not an RGB array'')
                else
                  (case c_offset s of
                     None \<Rightarrow> Inl (TypeError ''cannot unpack non-iterable NoneType object'')
                   | Some (off_x, off_y) \<Rightarrow>
                       if ndim (h ! dstarr) \<noteq> 3
                       then Inl (ValueError ''not enough values to unpack'')
                       else
                         (let ht = shape (h ! dstarr) ! 0; wd = shape (h ! dstarr) ! 1;
                              cvs_x = np_round (real wd * 0.5 + off_x);
                              cvs_y = np_round (real ht * 0.5 + off_y)
                          in case
                               (case (c_alpha s, index_of (CHR ''A'') (order st)) of
                                  (Some al, Some a_idx) \<Rightarrow>
                                    (case (if shape (h ! r) ! 2 \<noteq> 4
                                           then (case insert_band (h ! r) a_idx of
                                                   Inl e \<Rightarrow> Inl e
                                                 | Inr wider \<Rightarrow> Inr (h @ [wider], length h))
                                           else Inr (h, r)) of
                                       Inl e \<Rightarrow> Inl e
                                     | Inr (h1, r1) \<Rightarrow>
                                         (case set_band (h1 ! r1) a_idx (array_convert tr (h1 ! al)) of
                                            Inl e \<Rightarrow> Inl e
                                          | Inr written \<Rightarrow> Inr (h1[r1 := written], r1)))
                                | _ \<Rightarrow> Inr (h, r)) of
                               Inl e \<Rightarrow> Inl e
                             | Inr (h2, r2) \<Rightarrow>
                                 Inr (h2[dstarr := overlay_image tr (h2 ! dstarr) (cvs_x, cvs_y)
                                                     (h2 ! r2) (order st) (order st) (alpha img)],
                                      s\<lparr>drawn := True\<rparr>))))))"

section \<open>The pipeline engine and the overlay orchestrator\<close>

datatype stage = Scale | Reorder | Cuts | RGBMap | Merge

definition run_stage ::
  "'a::zero viewer \<Rightarrow> 'a trcalc \<Rightarrow> 'a cvs_img \<Rightarrow> render_state \<Rightarrow> nat \<Rightarrow> stage \<Rightarrow> nat
     \<Rightarrow> 'a heap \<times> ostate \<Rightarrow> error + ('a heap \<times> ostate)" where
  "run_stage vw tr img st dstarr g i hs =
     (case g of
        Scale \<Rightarrow> Scale_run vw tr img i hs
      | Reorder \<Rightarrow> Reorder_run tr img st i hs
      | Cuts \<Rightarrow> Cuts_run vw tr img i hs
      | RGBMap \<Rightarrow> RGBMap_run vw tr img st i hs
      | Merge \<Rightarrow> Merge_run tr img st dstarr i hs)"

text \<open>
  Modelled from the spec: \<^verbatim>\<open>Pipeline.run_from\<close> and \<^verbatim>\<open>Pipeline.stop\<close> of
  \<^verbatim>\<open>ginga/util/pipeline.py\<close>, which is not among the sources. The spec:
  \<^verbatim>\<open>run_from(stage)\<close> executes that stage and all later ones in declared order, each
  receiving a handle to its predecessor; \<^verbatim>\<open>stop()\<close> aborts the remainder of the
  current run; a \<^verbatim>\<open>StageError\<close> propagates uncaught to the run's caller.
  \<open>run_stages\<close> runs the stages \<open>gs\<close> that stand at the positions \<open>i\<close>, \<open>i + 1\<close>, ...
  of the list.
\<close>

fun run_stages ::
  "'a::zero viewer \<Rightarrow> 'a trcalc \<Rightarrow> 'a cvs_img \<Rightarrow> render_state \<Rightarrow> nat \<Rightarrow> stage list \<Rightarrow> nat
     \<Rightarrow> 'a heap \<times> ostate \<Rightarrow> error + ('a heap \<times> ostate)" where
  "run_stages vw tr img st dstarr [] i hs = Inr hs"
| "run_stages vw tr img st dstarr (g # gs) i hs =
     (if stop_req (snd hs) then Inr hs
      else (case run_stage vw tr img st dstarr g i hs of
              Inl e \<Rightarrow> Inl e
            | Inr hs' \<Rightarrow> run_stages vw tr img st dstarr gs (Suc i) hs'))"

definition run_from ::
  "'a::zero viewer \<Rightarrow> 'a trcalc \<Rightarrow> 'a cvs_img \<Rightarrow> render_state \<Rightarrow> nat \<Rightarrow> stage list \<Rightarrow> stage
     \<Rightarrow> 'a heap \<times> ostate \<Rightarrow> error + ('a heap \<times> ostate)" where
  "run_from vw tr img st dstarr stages g hs =
     (case index_of g stages of
        None \<Rightarrow> Inl (ValueError ''stage is not in the pipeline'')
      | Some k \<Rightarrow>
          run_stages vw tr img st dstarr (drop k stages) k
            (fst hs, (snd hs)\<lparr>stop_req := False\<rparr>))"

text \<open>The stage lists that \<^verbatim>\<open>_prepare_image\<close> and \<^verbatim>\<open>_prepare_norm_image\<close> build.\<close>

definition image_stages :: "stage list" where
  "image_stages = [Scale, Reorder, Merge]"

definition norm_stages :: "stage list" where
  "norm_stages = [Scale, Reorder, Cuts, RGBMap, Merge]"

text \<open>A new pipeline of \<open>n\<close> stages, stored in the cache: nothing published yet.\<close>

definition new_pipe :: "nat \<Rightarrow> ostate \<Rightarrow> ostate" where
  "new_pipe n c =
     c\<lparr>built := True, results := replicate n None, stop_req := False,
       c_offset := None, c_alpha := None\<rparr>"

text \<open>
  \<^verbatim>\<open>Overlays._prepare_image\<close> and \<^verbatim>\<open>Overlays._prepare_norm_image\<close>, on the heap and
  the object's cache. \<^verbatim>\<open>pipe.set(whence=..., cvs_img=..., state=..., dstarr=...)\<close> hands
  the stages the values that are parameters here.
\<close>

definition prepare_image ::
  "'a::zero viewer \<Rightarrow> 'a trcalc \<Rightarrow> render_state \<Rightarrow> nat \<Rightarrow> 'a cvs_img \<Rightarrow> real
     \<Rightarrow> 'a heap \<times> ostate \<Rightarrow> error + ('a heap \<times> ostate)" where
  "prepare_image vw tr st dstarr img whence hc =
     (case hc of (h, c) \<Rightarrow>
        (let pipe = (if \<not> built c then new_pipe 3 c else c)
         in if whence \<le> 0
            then run_from vw tr img st dstarr image_stages (image_stages ! 0) (h, pipe)
            else if \<not> visible pipe then Inr (h, pipe)
            else run_from vw tr img st dstarr image_stages (image_stages ! 1) (h, pipe)))"

definition prepare_norm_image ::
  "'a::zero viewer \<Rightarrow> 'a trcalc \<Rightarrow> render_state \<Rightarrow> nat \<Rightarrow> 'a cvs_img \<Rightarrow> real
     \<Rightarrow> 'a heap \<times> ostate \<Rightarrow> error + ('a heap \<times> ostate)" where
  "prepare_norm_image vw tr st dstarr img whence hc =
     (case hc of (h, c) \<Rightarrow>
        (let pipe = (if \<not> built c then new_pipe 5 c else c)
         in if whence \<le> 0
            then run_from vw tr img st dstarr norm_stages (norm_stages ! 0) (h, pipe)
            else if \<not> visible pipe then Inr (h, pipe)
            else if whence \<le> 1
            then run_from vw tr img st dstarr norm_stages (norm_stages ! 2) (h, pipe)
            else if whence \<le> 2
            then run_from vw tr img st dstarr norm_stages (norm_stages ! 3) (h, pipe)
            else run_from vw tr img st dstarr norm_stages (norm_stages ! 4) (h, pipe)))"

text \<open>
  The objects of a canvas. Modelled from the spec: \<^verbatim>\<open>prepare_image\<close> of the canvas
  image types, which are not among the sources. The spec: for every image-bearing
  object its mini-pipeline is invoked; plain images run Scale, Reorder, Merge and
  value-mapped images run Scale, Reorder, Cuts, RGBMap, Merge. Every image object carries
  its cache for the viewer.
\<close>

datatype 'a canvas_obj =
    ImageObj "'a cvs_img" ostate
  | NormImageObj "'a cvs_img" ostate
  | CompoundObj "'a canvas_obj list"
  | DrawableObj

text \<open>
  \<^verbatim>\<open>Overlays._overlay_images\<close>: the loop over the objects of a canvas, into the compound
  objects, in order. An exception of one object's sub-run ends the pass.
\<close>

fun overlay_images ::
  "'a::zero viewer \<Rightarrow> 'a trcalc \<Rightarrow> render_state \<Rightarrow> nat \<Rightarrow> real \<Rightarrow> 'a canvas_obj list \<Rightarrow> 'a heap
     \<Rightarrow> error + ('a heap \<times> 'a canvas_obj list)"
  and overlay_obj ::
  "'a::zero viewer \<Rightarrow> 'a trcalc \<Rightarrow> render_state \<Rightarrow> nat \<Rightarrow> real \<Rightarrow> 'a canvas_obj \<Rightarrow> 'a heap
     \<Rightarrow> error + ('a heap \<times> 'a canvas_obj)" where
  "overlay_images vw tr st dstarr whence [] h = Inr (h, [])"
| "overlay_images vw tr st dstarr whence (ob # obs) h =
     (case overlay_obj vw tr st dstarr whence ob h of
        Inl e \<Rightarrow> Inl e
      | Inr (h1, ob1) \<Rightarrow>
          (case overlay_images vw tr st dstarr whence obs h1 of
             Inl e \<Rightarrow> Inl e
           | Inr (h2, obs1) \<Rightarrow> Inr (h2, ob1 # obs1)))"
| "overlay_obj vw tr st dstarr whence (ImageObj img c) h =
     (case prepare_image vw tr st dstarr img whence (h, c) of
        Inl e \<Rightarrow> Inl e
      | Inr (h1, c1) \<Rightarrow> Inr (h1, ImageObj img c1))"
| "overlay_obj vw tr st dstarr whence (NormImageObj img c) h =
     (case prepare_norm_image vw tr st dstarr img whence (h, c) of
        Inl e \<Rightarrow> Inl e
      | Inr (h1, c1) \<Rightarrow> Inr (h1, NormImageObj img c1))"
| "overlay_obj vw tr st dstarr whence (CompoundObj obs) h =
     (case overlay_images vw tr st dstarr whence obs h of
        Inl e \<Rightarrow> Inl e
      | Inr (h1, obs1) \<Rightarrow> Inr (h1, CompoundObj obs1))"
| "overlay_obj vw tr st dstarr whence DrawableObj h = Inr (h, DrawableObj)"

section \<open>The RGBMap stage of the channel pipeline and its undo records\<close>

text \<open>
  \<^verbatim>\<open>ginga/util/stages/rgbmap.py\<close>. A parameter value is a name, a flag or a number; a
  parameter dictionary is written as the source writes it, key by key. A description is
  a fixed text, or a text with the formatted value of an f-string.
\<close>

datatype pval = PStr string | PBool bool | PNum real

type_synonym params = "(string \<times> pval) list"

datatype descr = Descr string | DescrNum string real | DescrBool string bool

text \<open>
  Modelled from the spec: \<^verbatim>\<open>StageAction\<close> of \<^verbatim>\<open>stages/base.py\<close>, which is not among
  the sources. The spec: an immutable record (stage, old-params, new-params,
  description).
\<close>

record stage_action =
  act_stage :: string
  act_old :: params
  act_new :: params
  act_descr :: descr

text \<open>A call that the stage makes on its pipeline: \<^verbatim>\<open>push(action)\<close> or \<^verbatim>\<open>run_from(stage)\<close>.\<close>

datatype pcall = PushCall stage_action | RunFromCall string

text \<open>
  The stage with its widgets, its RGB mapper's settings and its pipeline. The fields up
  to \<open>brightness\<close> are the attributes \<^verbatim>\<open>_calg_name\<close> ... \<^verbatim>\<open>_brightness\<close>; the name
  lists are the ones read at construction; the \<open>w_\<close> fields are what the widgets show;
  \<open>mapper\<close> holds the settings of \<^verbatim>\<open>self.rgbmap\<close>. Of the pipeline the model keeps the
  undo log, the pending redo tail and the calls made on it, in order.
\<close>

record rgbmap_stage =
  calg_name :: string
  cmap_name :: string
  imap_name :: string
  invert_cmap :: bool
  rotate_cmap_pct :: real
  contrast :: real
  brightness :: real
  gui_up :: bool
  calg_names :: "string list"
  cmap_names :: "string list"
  imap_names :: "string list"
  settings_keys :: "string list"
  w_algorithm :: nat
  w_colormap :: nat
  w_intensity :: nat
  w_invert_cmap :: bool
  w_rotate_cmap :: int
  w_contrast :: int
  w_brightness :: int
  mapper :: "string \<rightharpoonup> pval"
  undo_log :: "stage_action list"
  redo_tail :: "stage_action list"
  calls :: "pcall list"

definition stagename :: string where
  "stagename = ''rgb-mapper''"

text \<open>
  Modelled from the spec: \<^verbatim>\<open>Pipeline.push\<close> and \<^verbatim>\<open>Pipeline.run_from\<close> as this stage
  calls them (\<^verbatim>\<open>ginga/util/pipeline.py\<close> is not among the sources). The spec:
  \<^verbatim>\<open>push(action)\<close> appends to the undo log, discarding any redo tail. Of a re-run only
  the call is recorded.
\<close>

definition push :: "stage_action \<Rightarrow> rgbmap_stage \<Rightarrow> rgbmap_stage" where
  "push a s = s\<lparr>undo_log := undo_log s @ [a], redo_tail := [], calls := calls s @ [PushCall a]\<rparr>"

definition rerun :: "rgbmap_stage \<Rightarrow> rgbmap_stage" where
  "rerun s = s\<lparr>calls := calls s @ [RunFromCall stagename]\<rparr>"

text \<open>
  The property setters. Each stores the value and, when the GUI is up, shows it in the
  widget and hands it to the RGB mapper; \<^verbatim>\<open>list.index\<close> of a name that the list does
  not hold is a \<^verbatim>\<open>ValueError\<close>. The setters that show a percentage compute the
  widget's value \<^verbatim>\<open>int(pct * 100)\<close> in double precision, where the product can fall
  short of the exact one (\<^verbatim>\<open>0.29 * 100\<close> is \<^verbatim>\<open>28.999999999999996\<close>, shown as 28):
  \<open>int_pct\<close> stands for that computation and is a parameter of these setters and of
  the callbacks that call them.
\<close>

definition set_calg_name :: "string \<Rightarrow> rgbmap_stage \<Rightarrow> error + rgbmap_stage" where
  "set_calg_name val s =
     (let s1 = s\<lparr>calg_name := val\<rparr>
      in if gui_up s1 then
           (case index_of val (calg_names s1) of
              None \<Rightarrow> Inl (ValueError ''not in list'')
            | Some idx \<Rightarrow>
                Inr (s1\<lparr>w_algorithm := idx,
                        mapper := (mapper s1)(''color_algorithm'' \<mapsto> PStr val)\<rparr>))
         else Inr s1)"

definition set_cmap_name :: "string \<Rightarrow> rgbmap_stage \<Rightarrow> error + rgbmap_stage" where
  "set_cmap_name val s =
     (let s1 = s\<lparr>cmap_name := val\<rparr>
      in if gui_up s1 then
           (case index_of val (cmap_names s1) of
              None \<Rightarrow> Inl (ValueError ''not in list'')
            | Some idx \<Rightarrow>
                Inr (s1\<lparr>w_colormap := idx,
                        mapper := (mapper s1)(''color_map'' \<mapsto> PStr val)\<rparr>))
         else Inr s1)"

definition set_imap_name :: "string \<Rightarrow> rgbmap_stage \<Rightarrow> error + rgbmap_stage" where
  "set_imap_name val s =
     (let s1 = s\<lparr>imap_name := val\<rparr>
      in if gui_up s1 then
           (case index_of val (imap_names s1) of
              None \<Rightarrow> Inl (ValueError ''not in list'')
            | Some idx \<Rightarrow>
                Inr (s1\<lparr>w_intensity := idx,
                        mapper := (mapper s1)(''intensity_map'' \<mapsto> PStr val)\<rparr>))
         else Inr s1)"

definition set_invert_cmap :: "bool \<Rightarrow> rgbmap_stage \<Rightarrow> rgbmap_stage" where
  "set_invert_cmap tf s =
     (let s1 = s\<lparr>invert_cmap := tf\<rparr>
      in if gui_up s1
         then s1\<lparr>w_invert_cmap := tf, mapper := (mapper s1)(''color_map_invert'' \<mapsto> PBool tf)\<rparr>
         else s1)"

definition set_rotate_cmap :: "(real \<Rightarrow> int) \<Rightarrow> real \<Rightarrow> rgbmap_stage \<Rightarrow> rgbmap_stage" where
  "set_rotate_cmap int_pct pct s =
     (let s1 = s\<lparr>rotate_cmap_pct := pct\<rparr>
      in if gui_up s1
         then s1\<lparr>w_rotate_cmap := int_pct pct,
                 mapper := (mapper s1)(''color_map_rot_pct'' \<mapsto> PNum pct)\<rparr>
         else s1)"

definition set_contrast :: "(real \<Rightarrow> int) \<Rightarrow> real \<Rightarrow> rgbmap_stage \<Rightarrow> rgbmap_stage" where
  "set_contrast int_pct pct s =
     (let s1 = s\<lparr>contrast := pct\<rparr>
      in if gui_up s1
         then s1\<lparr>w_contrast := int_pct pct, mapper := (mapper s1)(''contrast'' \<mapsto> PNum pct)\<rparr>
         else s1)"

definition set_brightness :: "(real \<Rightarrow> int) \<Rightarrow> real \<Rightarrow> rgbmap_stage \<Rightarrow> rgbmap_stage" where
  "set_brightness int_pct pct s =
     (let s1 = s\<lparr>brightness := pct\<rparr>
      in if gui_up s1
         then s1\<lparr>w_brightness := int_pct pct,
                 mapper := (mapper s1)(''brightness'' \<mapsto> PNum pct)\<rparr>
         else s1)"

text \<open>
  The callbacks. \<open>registry\<close> is what \<^verbatim>\<open>cmap.get_names()\<close> or \<^verbatim>\<open>imap.get_names()\<close>
  returns at the time of the call; an index past its end is an \<^verbatim>\<open>IndexError\<close>.
\<close>

definition set_cmap_cb :: "string list \<Rightarrow> nat \<Rightarrow> rgbmap_stage \<Rightarrow> error + rgbmap_stage" where
  "set_cmap_cb registry index s =
     (let old_cmap_name = cmap_name s
      in if length registry \<le> index then Inl (IndexError ''list index out of range'')
         else (case set_cmap_name (registry ! index) s of
                 Inl e \<Rightarrow> Inl e
               | Inr s1 \<Rightarrow>
                   Inr (rerun (push \<lparr>act_stage = stagename,
                                      act_old = [(''cmap_name'', PStr old_cmap_name)],
                                      act_new = [(''cmap_name'', PStr (cmap_name s1))],
                                      act_descr = Descr ''rgbmap / change cmap''\<rparr> s1))))"

definition set_imap_cb :: "string list \<Rightarrow> nat \<Rightarrow> rgbmap_stage \<Rightarrow> error + rgbmap_stage" where
  "set_imap_cb registry index s =
     (let old_imap_name = imap_name s
      in if length registry \<le> index then Inl (IndexError ''list index out of range'')
         else (case set_imap_name (registry ! index) s of
                 Inl e \<Rightarrow> Inl e
               | Inr s1 \<Rightarrow>
                   Inr (rerun (push \<lparr>act_stage = stagename,
                                      act_old = [(''imap_name'', PStr old_imap_name)],
                                      act_new = [(''imap_name'', PStr (imap_name s1))],
                                      act_descr = Descr ''rgbmap / change imap''\<rparr> s1))))"

definition set_calg_cb :: "nat \<Rightarrow> rgbmap_stage \<Rightarrow> error + rgbmap_stage" where
  "set_calg_cb index s =
     (let old_calg_name = calg_name s
      in if length (calg_names s) \<le> index then Inl (IndexError ''list index out of range'')
         else (case set_calg_name (calg_names s ! index) s of
                 Inl e \<Rightarrow> Inl e
               | Inr s1 \<Rightarrow>
                   Inr (rerun (push \<lparr>act_stage = stagename,
                                      act_old = [(''calg_name'', PStr old_calg_name)],
                                      act_new = [(''calg_name'', PStr (calg_name s1))],
                                      act_descr = Descr ''rgbmap / change calg''\<rparr> s1))))"

definition rotate_cmap_cb :: "(real \<Rightarrow> int) \<Rightarrow> real \<Rightarrow> rgbmap_stage \<Rightarrow> rgbmap_stage" where
  "rotate_cmap_cb int_pct val s =
     (let old_val = rotate_cmap_pct s;
          pct = val / 100;
          s1 = set_rotate_cmap int_pct pct s
      in rerun (push \<lparr>act_stage = stagename,
                       act_old = [(''rotate_cmap'', PNum old_val)],
                       act_new = [(''rotate_cmap'', PNum (rotate_cmap_pct s1))],
                       act_descr = DescrNum ''rgbmap / rotate cmap: '' pct\<rparr> s1))"

definition invert_cmap_cb :: "bool \<Rightarrow> rgbmap_stage \<Rightarrow> rgbmap_stage" where
  "invert_cmap_cb tf s =
     (let old_val = invert_cmap s;
          s1 = set_invert_cmap tf s
      in rerun (push \<lparr>act_stage = stagename,
                       act_old = [(''invert_cmap'', PBool old_val)],
                       act_new = [(''invert_cmap'', PBool (invert_cmap s1))],
                       act_descr = DescrBool ''rgbmap / invert cmap '' tf\<rparr> s1))"

definition contrast_set_cb :: "(real \<Rightarrow> int) \<Rightarrow> real \<Rightarrow> rgbmap_stage \<Rightarrow> rgbmap_stage" where
  "contrast_set_cb int_pct val s =
     (let old_val = contrast s;
          pct = val / 100;
          s1 = set_contrast int_pct pct s
      in rerun (push \<lparr>act_stage = stagename,
                       act_old = [(''contrast'', PNum old_val)],
                       act_new = [(''contrast'', PNum (contrast s1))],
                       act_descr = DescrNum ''rgbmap / contrast: '' pct\<rparr> s1))"

definition brightness_set_cb :: "(real \<Rightarrow> int) \<Rightarrow> real \<Rightarrow> rgbmap_stage \<Rightarrow> rgbmap_stage" where
  "brightness_set_cb int_pct val s =
     (let old_val = brightness s;
          pct = val / 100;
          s1 = set_brightness int_pct pct s
      in rerun (push \<lparr>act_stage = stagename,
                       act_old = [(''brightness'', PNum old_val)],
                       act_new = [(''brightness'', PNum (brightness s1))],
                       act_descr = DescrNum ''rgbmap / brightness: '' pct\<rparr> s1))"

text \<open>
  \<^verbatim>\<open>copy_from_viewer_cb\<close>: \<^verbatim>\<open>rgbmap.copy_attributes(self.rgbmap, keylist=...)\<close> of the
  viewer's RGB mapper (\<^verbatim>\<open>ginga.RGBMap\<close>, not among the sources) gives the stage's
  mapper the viewer's settings under the listed keys; \<open>viewer_settings\<close> are the
  settings of \<^verbatim>\<open>self.viewer.get_rgbmap()\<close>.
\<close>

definition copy_attributes :: "(string \<rightharpoonup> pval) \<Rightarrow> (string \<rightharpoonup> pval) \<Rightarrow> string list \<Rightarrow> (string \<rightharpoonup> pval)" where
  "copy_attributes src dst keylist = (\<lambda>k. if k \<in> set keylist then src k else dst k)"

definition copy_from_viewer_cb :: "(string \<rightharpoonup> pval) \<Rightarrow> rgbmap_stage \<Rightarrow> rgbmap_stage" where
  "copy_from_viewer_cb viewer_settings s =
     rerun (s\<lparr>mapper := copy_attributes viewer_settings (mapper s) (settings_keys s)\<rparr>)"

section \<open>Projections and instances for closed examples\<close>

text \<open>What a run of a top-level stage published (as a value, or as the raster at the
  address it published), and what stage \<open>i\<close> of a mini-pipeline published (the raster at
  the address in its result slot).\<close>

definition published :: "error + ('c \<times> 'a ndarray option) \<Rightarrow> 'a ndarray option" where
  "published r = (case r of Inr (c, res) \<Rightarrow> res | Inl e \<Rightarrow> None)"

definition published_heap :: "error + ('a heap \<times> 'c \<times> nat option) \<Rightarrow> 'a ndarray option" where
  "published_heap r =
     (case r of Inr (h, c, Some a) \<Rightarrow> Some (h ! a) | _ \<Rightarrow> None)"

definition published_at :: "nat \<Rightarrow> error + ('a heap \<times> ostate) \<Rightarrow> 'a ndarray option" where
  "published_at i r =
     (case r of
        Inr (h, s) \<Rightarrow> (case results s ! i of Some a \<Rightarrow> Some (h ! a) | None \<Rightarrow> None)
      | Inl e \<Rightarrow> None)"

text \<open>
  The absent helpers are parameters of the model; a closed example needs them as
  functions. These instances work on rasters of natural numbers: a rotation that leaves
  the raster as it is, a cutout without rescaling, a gray color table, cut levels that
  clamp into the table, and an overlay that pastes the source onto the destination
  without blending.
\<close>

definition ex_rotate_clip :: "nat ndarray \<Rightarrow> real \<Rightarrow> nat ndarray" where
  "ex_rotate_clip a theta = a"

definition ex_cutout ::
  "nat ndarray \<Rightarrow> real \<Rightarrow> real \<Rightarrow> real \<Rightarrow> real \<Rightarrow> real \<Rightarrow> real \<Rightarrow> string \<Rightarrow> nat ndarray" where
  "ex_cutout a a1 b1 a2 b2 sx sy interp = slice2 a (\<lfloor>b1\<rfloor>, \<lfloor>b2\<rfloor> + 1) (\<lfloor>a1\<rfloor>, \<lfloor>a2\<rfloor> + 1)"

definition ex_gray :: "nat ndarray \<Rightarrow> string \<Rightarrow> nat ndarray" where
  "ex_gray a ord =
     NDArray (shape a @ [length ord])
       (concat (map (\<lambda>v. map (\<lambda>c. if c = CHR ''A'' then 255 else v) ord) (elems a)))"

definition ex_cut_levels :: "nat ndarray \<Rightarrow> real \<Rightarrow> real \<Rightarrow> int \<Rightarrow> int \<Rightarrow> nat ndarray" where
  "ex_cut_levels a loval hival vmin vmax =
     NDArray (shape a) (map (\<lambda>v. max (nat vmin) (min (nat vmax) v)) (elems a))"

definition ex_overlay ::
  "nat ndarray \<Rightarrow> int \<times> int \<Rightarrow> nat ndarray \<Rightarrow> string \<Rightarrow> string \<Rightarrow> real \<Rightarrow> nat ndarray" where
  "ex_overlay dst pos src dst_order src_order a =
     (if ndim dst = 3 \<and> ndim src = 3 \<and> shape dst ! 2 = shape src ! 2 then
        NDArray (shape dst)
          (concat (map (\<lambda>j. (let y = int (j div (shape dst ! 1)) - snd pos;
                                 x = int (j mod (shape dst ! 1)) - fst pos
                             in if 0 \<le> y \<and> y < int (shape src ! 0) \<and> 0 \<le> x \<and> x < int (shape src ! 1)
                                then pixels src ! (nat y * (shape src ! 1) + nat x)
                                else pixels dst ! j))
                     [0..<shape dst ! 0 * (shape dst ! 1)]))
      else dst)"

definition ex_trcalc :: "nat trcalc" where
  "ex_trcalc =
     \<lparr>amax = 255, interpolation_methods = [''basic''], merge_clip = calc_image_merge_clip,
      scaled_cutout = ex_cutout, array_convert = id, overlay_image = ex_overlay, as_uint = id\<rparr>"

definition ex_viewer :: "nat viewer" where
  "ex_viewer =
     \<lparr>draw_rect = [(0, 0), (10, 0), (10, 10), (0, 10)], scale_xy = (1, 1), pan = (5, 5),
      data_off = 1 / 2, interp_setting = ''basic'',
      v_rgbmap = \<lparr>hash_size = 256, get_rgb_array = ex_gray\<rparr>,
      v_autocuts = ex_cut_levels, v_cuts = (0, 255)\<rparr>"

text \<open>A canvas image with the buffer \<open>a\<close> in the channel order \<open>ord\<close>, placed at \<open>(x, y)\<close>
  in data coordinates, with no settings of its own.\<close>

definition ex_cvs :: "nat image option \<Rightarrow> real \<Rightarrow> real \<Rightarrow> nat cvs_img" where
  "ex_cvs im x y =
     \<lparr>image = im, img_x = x, img_y = y, to_data = id, scale_x = 1, scale_y = 1,
      interpolation = None, flipy = False, alpha = 1, rgbmap = None, autocuts = None,
      cuts = None\<rparr>"

text \<open>A cache that holds no mini-pipeline yet, and one whose mini-pipeline of \<open>n\<close> stages
  has published nothing.\<close>

definition ex_cache :: ostate where
  "ex_cache =
     \<lparr>built = False, visible = False, drawn = False, results = [], stop_req = False,
      c_offset = None, c_alpha = None\<rparr>"

definition ex_state :: render_state where
  "ex_state = \<lparr>win_dim = (4, 4), order = ''RGBA'', ctr = (2, 2)\<rparr>"

text \<open>A value image of 2 by 2 pixels, and the state of a window of 2 by 2 pixels whose
  pipeline order is RGB.\<close>

definition ex_mono :: "nat image" where
  "ex_mono = \<lparr>data_np = NDArray [2, 2] [1, 2, 3, 4], img_order = ''M'', is_rgb = False\<rparr>"

definition ex_state_rgb :: render_state where
  "ex_state_rgb = \<lparr>win_dim = (2, 2), order = ''RGB'', ctr = (1, 1)\<rparr>"

text \<open>The caches of the image objects of a canvas, in the order of the pass, and the
  outcome of a pass as the heap and these caches.\<close>

fun caches_of :: "'a canvas_obj list \<Rightarrow> ostate list"
  and cache_of :: "'a canvas_obj \<Rightarrow> ostate list" where
  "caches_of [] = []"
| "caches_of (ob # obs) = cache_of ob @ caches_of obs"
| "cache_of (ImageObj img c) = [c]"
| "cache_of (NormImageObj img c) = [c]"
| "cache_of (CompoundObj obs) = caches_of obs"
| "cache_of DrawableObj = []"

definition pass_outcome ::
  "error + ('a heap \<times> 'a canvas_obj list) \<Rightarrow> error + ('a heap \<times> ostate list)" where
  "pass_outcome r = (case r of Inl e \<Rightarrow> Inl e | Inr (h, obs) \<Rightarrow> Inr (h, caches_of obs))"

text \<open>A destination buffer of 2 by 2 black RGB pixels.\<close>

definition ex_dst :: "nat ndarray" where
  "ex_dst = NDArray [2, 2, 3] [0, 0, 0, 0, 0, 0, 0, 0, 0, 0, 0, 0]"

text \<open>A value image of 2 by 2 pixels with an alpha band: every pixel is its value and
  the alpha 7.\<close>

definition ex_mono_alpha :: "nat image" where
  "ex_mono_alpha =
     \<lparr>data_np = NDArray [2, 2, 2] [1, 7, 2, 7, 3, 7, 4, 7], img_order = ''MA'', is_rgb = False\<rparr>"

section \<open>Properties\<close>

subsection \<open>Shapes\<close>

lemma verify_2d_raster: "2 \<le> ndim d \<Longrightarrow> verify_2d (Some d) = Inr ()"
  by (simp add: verify_2d_def)

lemma shape3: "ndim a = 3 \<Longrightarrow> \<exists>h w dp. shape a = [h, w, dp]"
  by (auto simp: ndim_def length_Suc_conv eval_nat_numeral)

lemma shape2: "2 \<le> ndim a \<Longrightarrow> \<exists>h w rest. shape a = h # w # rest"
  by (cases "shape a"; simp add: ndim_def; rename_tac x xs; case_tac xs; simp)

lemma reorder_image_Inr:
  "reorder_image amx dst_order a src_order = Inr out \<Longrightarrow>
     out = a \<and> dst_order = src_order \<or>
     dst_order \<noteq> src_order \<and> shape a \<noteq> [] \<and>
     out = NDArray (butlast (shape a) @ [length dst_order])
             (concat (map (reorder_pixel amx dst_order src_order) (pixels a)))"
  unfolding reorder_image_def band_missing_def by (simp split: if_splits)

lemma reorder_image_last_extent:
  assumes "reorder_image amx dst_order a src_order = Inr out" and "dst_order \<noteq> src_order"
  shows "last_extent out = length dst_order"
  using reorder_image_Inr [OF assms(1)] assms(2) by (auto simp: last_extent_def)

lemma reorder_image_rows_cols:
  assumes "reorder_image amx dst_order a src_order = Inr out" and "3 \<le> ndim a"
  shows "shape out ! 0 = shape a ! 0 \<and> shape out ! 1 = shape a ! 1"
proof -
  from assms(2) obtain h w x rest where sh: "shape a = h # w # x # rest"
    by (cases "shape a"; simp add: ndim_def; rename_tac xs; case_tac xs; simp;
        rename_tac ys; case_tac ys; simp)
  from reorder_image_Inr [OF assms(1)] show ?thesis
    by (auto simp: sh)
qed

lemma reorder_image_no_StageError: "\<not> is_StageError (reorder_image amx dst_order a src_order)"
  by (simp add: reorder_image_def)

lemma is_StageError_case:
  "is_StageError (case r of Inl e \<Rightarrow> Inl e | Inr v \<Rightarrow> Inr (f v)) = is_StageError r"
  by (cases r) (auto elim: is_StageError.elims)

lemma shape_slice2:
  "shape a = h # w # rest \<Longrightarrow>
     shape (slice2 a ys xs) =
       (slice_bound h (snd ys) - slice_bound h (fst ys)) #
       (slice_bound w (snd xs) - slice_bound w (fst xs)) # rest"
  by (simp add: slice2_def Let_def)

text \<open>A slice \<open>y : y + n\<close> with \<open>y\<close> and \<open>n\<close> not negative holds \<open>n\<close> rows, or what the
  axis has left past \<open>y\<close>.\<close>

lemma slice_extent:
  assumes "0 \<le> y" "0 \<le> n"
  shows "slice_bound h (y + n) - slice_bound h y = nat (min n (int h - y))"
proof -
  obtain Y N where y: "y = int Y" and n: "n = int N"
    using assms by (metis nonneg_int_cases)
  have a: "slice_bound h (y + n) = min (Y + N) h"
    unfolding y n slice_bound_def by (simp add: nat_add_distrib)
  have b: "slice_bound h y = min Y h"
    unfolding y slice_bound_def by simp
  have c: "nat (min n (int h - y)) = min N (h - Y)"
    unfolding y n by (auto simp: min_def)
  show ?thesis unfolding a b c by (auto simp: min_def)
qed

subsection \<open>The Output stage\<close>

lemma Output_run_Inr:
  assumes "Output_run False amx rgb_order st dst (Some d) = Inr (oo, res)"
  shows "2 \<le> ndim d \<and> oo = rgb_order \<and>
         (\<exists>out. res = Some out \<and>
            reorder_image amx rgb_order
              (slice2 d (\<bar>snd dst\<bar>, \<bar>snd dst\<bar> + snd (win_dim st))
                        (\<bar>fst dst\<bar>, \<bar>fst dst\<bar> + fst (win_dim st)))
              (order st) = Inr out)"
  using assms unfolding Output_run_def verify_2d_def Let_def
  by (simp split: if_splits sum.splits)

text \<open>
  Where the window, placed at the anchor, lies inside a raster of three axes, a run that
  is not bypassed and returns sets \<^verbatim>\<open>out_order\<close> to the renderer's order and publishes
  a raster with the window's rows and columns.
\<close>

lemma Output_covered_window:
  assumes run: "Output_run False amx rgb_order st dst (Some d) = Inr (oo, res)"
      and nd: "ndim d = 3"
      and win: "0 \<le> fst (win_dim st)" "0 \<le> snd (win_dim st)"
      and cov: "\<bar>fst dst\<bar> + fst (win_dim st) \<le> int (shape d ! 1)"
               "\<bar>snd dst\<bar> + snd (win_dim st) \<le> int (shape d ! 0)"
  shows "oo = rgb_order \<and>
         (\<exists>out. res = Some out \<and> shape out ! 0 = nat (snd (win_dim st))
                \<and> shape out ! 1 = nat (fst (win_dim st)))"
proof -
  let ?cut = "slice2 d (\<bar>snd dst\<bar>, \<bar>snd dst\<bar> + snd (win_dim st))
                       (\<bar>fst dst\<bar>, \<bar>fst dst\<bar> + fst (win_dim st))"
  note r = Output_run_Inr [OF run]
  from r obtain out where out: "res = Some out"
    and ro: "reorder_image amx rgb_order ?cut (order st) = Inr out" by blast
  from nd obtain h w dp where sh: "shape d = [h, w, dp]" using shape3 by blast
  have sc: "shape ?cut = [nat (min (snd (win_dim st)) (int h - \<bar>snd dst\<bar>)),
                          nat (min (fst (win_dim st)) (int w - \<bar>fst dst\<bar>)), dp]"
    using shape_slice2 [OF sh] win by (simp add: slice_extent)
  from cov sh have m: "min (snd (win_dim st)) (int h - \<bar>snd dst\<bar>) = snd (win_dim st)"
                      "min (fst (win_dim st)) (int w - \<bar>fst dst\<bar>) = fst (win_dim st)"
    by simp_all
  from sc have "3 \<le> ndim ?cut" by (simp add: ndim_def)
  from reorder_image_rows_cols [OF ro this] sc m
  have "shape out ! 0 = nat (snd (win_dim st)) \<and> shape out ! 1 = nat (fst (win_dim st))"
    by simp
  with r out show ?thesis by simp
qed

text \<open>
  Claim C1 fails on the code where the anchor pushes the window past the raster's edge.
  The stage's guards compare the raster's extent with the window's (\<^verbatim>\<open>wd < win_wd\<close>,
  with the message that the pipeline output does not cover the window) and refuse a
  positive anchor; they do not compare what is left of the raster past the anchor. For a
  raster of 2 by 2, a window of 2 by 2 and the anchor \<open>(-1, -1)\<close> both guards pass, the
  slice \<^verbatim>\<open>data[1:3, 1:3]\<close> is cut short at the raster's edge, and the stage publishes
  a raster of 1 by 1 without raising: not the window's dimensions.
\<close>

theorem Output_publishes_short_raster:
  "Output_run False (255::nat) ''RGB'' \<lparr>win_dim = (2, 2), order = ''RGB'', ctr = (1, 1)\<rparr> (- 1, - 1)
     (Some (NDArray [2, 2, 3] [1, 2, 3, 4, 5, 6, 7, 8, 9, 10, 11, 12]))
   = Inr (''RGB'', Some (NDArray [1, 1, 3] [10, 11, 12]))"
  by code_simp

text \<open>
  Claim C2. On an input raster (an array of at least two axes), the Output stage, when
  not bypassed, raises a \<^verbatim>\<open>StageError\<close> if and only if the raster's width is smaller
  than the window's width, or its height smaller than the window's height, or the
  anchor has a positive component.
\<close>

theorem Output_StageError_iff:
  assumes "2 \<le> ndim d"
  shows "is_StageError (Output_run False amx rgb_order st dst (Some d)) \<longleftrightarrow>
           (int (shape d ! 1) < fst (win_dim st) \<or> int (shape d ! 0) < snd (win_dim st)
            \<or> 0 < fst dst \<or> 0 < snd dst)"
proof -
  have v: "verify_2d (Some d) = Inr ()" using assms by (rule verify_2d_raster)
  show ?thesis
    by (simp add: Output_run_def v Let_def is_StageError_case reorder_image_no_StageError)
qed

text \<open>A raster of 2 by 2 for a window 3 wide: the stage raises, and the width is the reason.\<close>

theorem Output_StageError_iff_witness:
  "2 \<le> ndim (NDArray [2, 2, 3] [1, 2, 3, 4, 5, 6, 7, 8, 9, 10, 11, 12 :: nat])
   \<and> is_StageError
       (Output_run False (255::nat) ''RGB'' \<lparr>win_dim = (3, 2), order = ''RGB'', ctr = (1, 1)\<rparr> (0, 0)
          (Some (NDArray [2, 2, 3] [1, 2, 3, 4, 5, 6, 7, 8, 9, 10, 11, 12])))
   \<and> int (shape (NDArray [2, 2, 3] [1, 2, 3, 4, 5, 6, 7, 8, 9, 10, 11, 12 :: nat]) ! 1) < 3"
proof -
  have n: "2 \<le> ndim (NDArray [2, 2, 3] [1, 2, 3, 4, 5, 6, 7, 8, 9, 10, 11, 12 :: nat])"
    by (simp add: ndim_def)
  from Output_StageError_iff [OF n, of "255" "''RGB''"
      "\<lparr>win_dim = (3, 2), order = ''RGB'', ctr = (1, 1)\<rparr>" "(0, 0)"] n
  show ?thesis by simp
qed

subsection \<open>The CreateBg stage\<close>

text \<open>\<open>floor_sqrt\<close> is the integer part of the real square root.\<close>

lemma floor_sqrt_bounds:
  "floor_sqrt n * floor_sqrt n \<le> n \<and> n < (floor_sqrt n + 1) * (floor_sqrt n + 1)"
proof (induction n rule: floor_sqrt.induct)
  case (1 n)
  show ?case
  proof (cases "n < 2")
    case True
    then have f: "floor_sqrt n = n" by (subst floor_sqrt.simps) simp
    from True have "n = 0 \<or> n = 1" by auto
    then show ?thesis unfolding f by auto
  next
    case False
    define s where "s = floor_sqrt (n div 4)"
    from "1.IH" [OF False] have lo: "s * s \<le> n div 4" and hi: "n div 4 < (s + 1) * (s + 1)"
      by (simp_all add: s_def)
    have a: "(2 * s) * (2 * s) \<le> n"
    proof -
      have "(2 * s) * (2 * s) = 4 * (s * s)" by simp
      also have "\<dots> \<le> 4 * (n div 4)" using lo by simp
      also have "\<dots> \<le> n" by simp
      finally show ?thesis .
    qed
    have b: "n < (2 * s + 2) * (2 * s + 2)"
    proof -
      from hi have "n div 4 + 1 \<le> (s + 1) * (s + 1)" by simp
      then have "4 * (n div 4 + 1) \<le> 4 * ((s + 1) * (s + 1))" by simp
      moreover have "n < 4 * (n div 4 + 1)" by presburger
      moreover have "4 * ((s + 1) * (s + 1)) = (2 * s + 2) * (2 * s + 2)" by (simp add: algebra_simps)
      ultimately show ?thesis by linarith
    qed
    have eq: "floor_sqrt n = (if (2 * s + 1) * (2 * s + 1) \<le> n then 2 * s + 1 else 2 * s)"
      using False by (subst floor_sqrt.simps) (simp add: s_def Let_def)
    show ?thesis
    proof (cases "(2 * s + 1) * (2 * s + 1) \<le> n")
      case True
      with eq have "floor_sqrt n = 2 * s + 1" by simp
      with True b show ?thesis by (simp add: algebra_simps)
    next
      case c: False
      with eq have "floor_sqrt n = 2 * s" by simp
      with c a show ?thesis by simp
    qed
  qed
qed

lemma floor_sqrt_eq: "int (floor_sqrt n) = \<lfloor>sqrt (real n)\<rfloor>"
proof -
  let ?r = "floor_sqrt n"
  from floor_sqrt_bounds [of n]
  have lo: "?r * ?r \<le> n" and hi: "n < (?r + 1) * (?r + 1)" by simp_all
  have "real ?r * real ?r \<le> real n" using lo by (metis of_nat_le_iff of_nat_mult)
  then have 1: "real ?r \<le> sqrt (real n)"
    by (metis real_le_rsqrt power2_eq_square)
  have "real n < real (?r + 1) * real (?r + 1)" using hi by (metis of_nat_less_iff of_nat_mult)
  then have 2: "sqrt (real n) < real (?r + 1)"
    by (metis of_nat_0_le_iff real_less_lsqrt power2_eq_square)
  have "\<lfloor>sqrt (real n)\<rfloor> = int ?r"
    by (rule floor_unique) (use 1 2 in simp_all)
  then show ?thesis by simp
qed


lemma block_concat_replicate:
  assumes "i < n"
  shows "block (length p) (concat (replicate n p)) i = p"
proof -
  from assms obtain m where n: "n = i + Suc m" using less_imp_Suc_add by fastforce
  have "concat (replicate n p) = concat (replicate i p) @ p @ concat (replicate m p)"
    unfolding n replicate_add by simp
  moreover have "length (concat (replicate i p)) = i * length p"
    by (induction i) simp_all
  ultimately show ?thesis by (simp add: block_def)
qed

lemma pixels_filled:
  "pixels (NDArray [ht, wd, length p] (concat (replicate (ht * wd) p))) = replicate (ht * wd) p"
  by (rule nth_equalityI) (simp_all add: pixels_def block_concat_replicate)

lemma bgval_defined:
  "set ord \<subseteq> {CHR ''R'', CHR ''G'', CHR ''B'', CHR ''A''} \<Longrightarrow>
     \<not> (\<exists>c \<in> set ord. bgval r g b a c = None)"
  by (auto simp: bgval_def)

lemma CreateBg_side_sqrt:
  "CreateBg_side st =
     \<lfloor>sqrt (real_of_int (fst (win_dim st) * fst (win_dim st) + snd (win_dim st) * snd (win_dim st)))\<rfloor> + 20"
proof -
  let ?n = "fst (win_dim st) * fst (win_dim st) + snd (win_dim st) * snd (win_dim st)"
  have "0 \<le> ?n" by simp
  then have "real_of_int ?n = real (nat ?n)" by simp
  then show ?thesis unfolding CreateBg_side_def Let_def floor_sqrt_eq by simp
qed

text \<open>
  Claim C4, as amended. When CreateBg runs as the first stage, not bypassed, with a
  channel order over R, G, B and A, it publishes a square canvas whose side is
  \<open>floor(sqrt(win_w\<^sup>2 + win_h\<^sup>2)) + 20\<close> pixels (the source truncates the root with
  \<^verbatim>\<open>int\<close>; it does not round it up), every pixel holding the background color's
  components in the declared channel order, and it records the side and the center
  \<open>side div 2\<close> in the context.
\<close>

theorem CreateBg_canvas:
  assumes "set (order st) \<subseteq> {CHR ''R'', CHR ''G'', CHR ''B'', CHR ''A''}"
  shows "\<exists>side a.
           side = \<lfloor>sqrt (real_of_int (fst (win_dim st) * fst (win_dim st)
                                        + snd (win_dim st) * snd (win_dim st)))\<rfloor> + 20
           \<and> CreateBg_run False (None :: 'p option) st (r, g, b) opq
               = Inr (Some ((side, side), (side div 2, side div 2)), Some a)
           \<and> shape a = [nat side, nat side, length (order st)]
           \<and> pixels a = replicate (nat side * nat side) (bg_pixel r g b opq (order st))"
proof -
  let ?side = "CreateBg_side st"
  let ?p = "bg_pixel r g b opq (order st)"
  let ?a = "NDArray [nat ?side, nat ?side, length (order st)]
              (concat (replicate (nat ?side * nat ?side) ?p))"
  have len: "length ?p = length (order st)" by (simp add: bg_pixel_def)
  have mk: "make_filled_array (nat ?side, nat ?side, length (order st)) (order st) r g b opq = Inr ?a"
    using bgval_defined [OF assms] by (simp add: make_filled_array_def)
  have run: "CreateBg_run False (None :: 'p option) st (r, g, b) opq
               = Inr (Some ((?side, ?side), (?side div 2, ?side div 2)), Some ?a)"
    by (simp add: CreateBg_run_def Let_def mk)
  have px: "pixels ?a = replicate (nat ?side * nat ?side) ?p"
    using pixels_filled [of "nat ?side" "nat ?side" ?p] len by simp
  show ?thesis
    using run px CreateBg_side_sqrt [of st] by (intro exI [of _ ?side] exI [of _ ?a]) simp
qed

lemma sqrt_25: "sqrt 25 = 5"
  by (rule real_sqrt_unique) simp_all

text \<open>A window of 3 by 4 pixels: the diagonal is 5, the canvas 25 by 25.\<close>

theorem CreateBg_canvas_witness:
  "set ''RGB'' \<subseteq> {CHR ''R'', CHR ''G'', CHR ''B'', CHR ''A''}
   \<and> raster_shape (CreateBg_run False (None :: unit option)
         \<lparr>win_dim = (3, 4), order = ''RGB'', ctr = (1, 2)\<rparr> (10 :: nat, 20, 30) 255)
       = Some [25, 25, 3]
   \<and> map_option pixels (published (CreateBg_run False (None :: unit option)
         \<lparr>win_dim = (3, 4), order = ''RGB'', ctr = (1, 2)\<rparr> (10 :: nat, 20, 30) 255))
       = Some (replicate 625 [10, 20, 30])"
proof -
  have ord: "set (order \<lparr>win_dim = (3, 4), order = ''RGB'', ctr = (1, 2)\<rparr>)
               \<subseteq> {CHR ''R'', CHR ''G'', CHR ''B'', CHR ''A''}" by simp
  from CreateBg_canvas [OF ord, of "10 :: nat" 20 30 255, where 'p = unit]
  show ?thesis
    by (auto simp: raster_shape_def published_def sqrt_25 bg_pixel_def bgval_def)
qed

lemma ceiling_sqrt_2: "\<lceil>sqrt 2\<rceil> = 2"
proof (rule ceiling_unique)
  show "of_int 2 - 1 < sqrt 2" by (simp add: real_less_rsqrt)
  show "sqrt 2 \<le> of_int 2" by (simp add: real_le_lsqrt)
qed

text \<open>
  Claim C4 as stated fails: for a window of 1 by 1 the canvas is 21 by 21, and
  \<open>ceil(sqrt(1 + 1)) + 20\<close> is 22.
\<close>

theorem CreateBg_side_counterexample:
  "raster_shape (CreateBg_run False (None :: unit option)
      \<lparr>win_dim = (1, 1), order = ''RGB'', ctr = (0, 0)\<rparr> (0 :: nat, 0, 0) 255) = Some [21, 21, 3]
   \<and> \<lceil>sqrt (real_of_int (1 * 1 + 1 * 1))\<rceil> + 20 = (22 :: int)"
proof -
  have "raster_shape (CreateBg_run False (None :: unit option)
      \<lparr>win_dim = (1, 1), order = ''RGB'', ctr = (0, 0)\<rparr> (0 :: nat, 0, 0) 255) = Some [21, 21, 3]"
    by code_simp
  then show ?thesis using ceiling_sqrt_2 by simp
qed

subsection \<open>The Rotate stage\<close>

lemma isclose_zero: "isclose x 0 \<longleftrightarrow> \<bar>x\<bar> \<le> 1 / 10 ^ 8"
  by (simp add: isclose_def)

text \<open>
  Claim C5, as amended. For every input raster, when the requested rotation is 0 degrees
  or within numpy's tolerance of it (magnitude at most \<open>1e-8\<close>), the raster that the
  Rotate stage publishes is identical to its input if the stage is bypassed or the
  viewer's vertical flip (\<^verbatim>\<open>_invert_y\<close>) is off: it is the very buffer it received, and
  the heap is as it was. With the flip on, the stage publishes the input flipped
  vertically.
\<close>

theorem Rotate_identity:
  assumes "2 \<le> ndim (h ! r)" and "isclose rot_deg 0"
  shows "published_heap (Rotate_run bypass rot_deg invert_y rotate_clip st off (h, Some r))
           = Some (if \<not> bypass \<and> invert_y then flipud (h ! r) else h ! r)
         \<and> (bypass \<or> \<not> invert_y \<longrightarrow>
              (\<exists>dst. Rotate_run bypass rot_deg invert_y rotate_clip st off (h, Some r)
                       = Inr (h, dst, Some r)))"
proof -
  have v: "verify_2d (Some (h ! r)) = Inr ()" using assms(1) by (rule verify_2d_raster)
  show ?thesis
    using assms(2) by (auto simp: Rotate_run_def v Let_def published_heap_def)
qed

text \<open>A rotation of a billionth of a degree, the flip off: the raster passes unchanged.\<close>

theorem Rotate_identity_witness:
  "2 \<le> ndim ([NDArray [2, 1] [1, 2 :: nat]] ! 0) \<and> isclose (1 / 10 ^ 9) 0
   \<and> published_heap (Rotate_run False (1 / 10 ^ 9) False ex_rotate_clip ex_state (0, 0)
        ([NDArray [2, 1] [1, 2]], Some 0)) = Some (NDArray [2, 1] [1, 2])"
proof -
  have n: "2 \<le> ndim ([NDArray [2, 1] [1, 2 :: nat]] ! 0)" by (simp add: ndim_def)
  have c: "isclose (1 / 10 ^ 9) 0" by (simp add: isclose_def)
  from Rotate_identity [OF n c, of False False ex_rotate_clip ex_state "(0, 0)"] n c
  show ?thesis by simp
qed

text \<open>
  Claim C5 as stated fails: with a rotation of 0 degrees and the vertical flip on, the
  two rows of the raster come out in reverse order.
\<close>

theorem Rotate_identity_counterexample:
  "published_heap (Rotate_run False 0 True ex_rotate_clip ex_state (0, 0)
      ([NDArray [2, 1] [1, 2]], Some 0)) = Some (NDArray [2, 1] [2, 1])"
  by (simp add: Rotate_run_def verify_2d_def ndim_def isclose_def published_heap_def flipud_def
        block_def upt_conv_Cons)

subsection \<open>The Reorder stage\<close>

lemma take_band_Inr:
  "take_band a k = Inr v \<Longrightarrow> shape a \<noteq> [] \<and> k < last (shape a)"
  by (simp add: take_band_def split: if_splits)

lemma take_bands_Inr:
  "take_bands a k = Inr v \<Longrightarrow>
     shape a \<noteq> [] \<and> v = NDArray (butlast (shape a) @ [min k (last (shape a))])
                               (concat (map (take k) (pixels a)))"
  by (simp add: take_bands_def split: if_splits)

lemma get_data_Some: "get_data i s = Inr v \<Longrightarrow> 0 < i \<and> i \<le> length (results s) \<and> v = results s ! (i - 1)"
  by (simp add: get_data_def split: if_splits)

lemma Reorder_run_Inr:
  assumes run: "Reorder_run tr img st i (h, s) = Inr (h', s')"
      and inp: "get_data i s = Inr (Some r)"
      and im: "image img = Some im"
  shows "\<exists>data.
           (if is_rgb im \<and> img_order im \<noteq> order st
            then reorder_image (amax tr) (order st) (h ! r) (img_order im)
            else Inr (h ! r)) = Inr data \<and>
           (case index_of (CHR ''A'') (img_order im) of
              None \<Rightarrow>
                h' = (if is_rgb im \<and> img_order im \<noteq> order st then h @ [data] else h) \<and>
                s' = (send i (Some (if is_rgb im \<and> img_order im \<noteq> order st then length h else r)) s)
                       \<lparr>c_alpha := None\<rparr>
            | Some k \<Rightarrow>
                (\<exists>al front.
                   take_band data k = Inr al \<and> take_bands data k = Inr front \<and> ndim front = 3 \<and>
                   h' = (if is_rgb im \<and> img_order im \<noteq> order st then h @ [data] else h)
                        @ [al, drop_unit_depth front] \<and>
                   s' = (send i (Some (Suc (length h'  - 2))) s)\<lparr>c_alpha := Some (length h' - 2)\<rparr>))"
  using run
  by (auto simp: Reorder_run_def inp im Let_def split: sum.splits if_splits option.splits)


lemma published_at_sent:
  "i < length (results s) \<Longrightarrow>
     published_at i (Inr (h, (send i (Some a) s)\<lparr>c_alpha := al\<rparr>)) = Some (h ! a)"
  by (simp add: published_at_def send_def)

lemma list2: "length xs = 2 \<Longrightarrow> \<exists>a b. xs = [a, b]"
  by (auto simp: length_Suc_conv eval_nat_numeral)

lemma last_extent_front:
  assumes "take_band data k = Inr al" and "take_bands data k = Inr front" and "ndim front = 3"
  shows "shape front = [shape data ! 0, shape data ! 1, k]"
proof -
  from take_band_Inr [OF assms(1)] have ne: "shape data \<noteq> []" and k: "k < last (shape data)"
    by simp_all
  from take_bands_Inr [OF assms(2)]
  have sh: "shape front = butlast (shape data) @ [min k (last (shape data))]" by simp
  with assms(3) have "length (butlast (shape data)) = 2" by (simp add: ndim_def)
  then obtain a b where bl: "butlast (shape data) = [a, b]"
    using list2 by blast
  from ne have "shape data = butlast (shape data) @ [last (shape data)]" by simp
  with bl have "shape data = [a, b, last (shape data)]" by simp
  then have "shape data ! 0 = a" "shape data ! 1 = b" by (metis nth_Cons_0, metis One_nat_def nth_Cons_0 nth_Cons_Suc)
  with sh bl k show ?thesis by simp
qed

text \<open>
  Claim C6, as amended. For every non-None image that runs through the Reorder stage
  without raising: if the image's channel order has no alpha, nothing goes to the
  context as alpha, and for a color image (an \<^verbatim>\<open>RGBImage\<close>) whose buffer has one band
  per tag of its order the published raster's last-axis extent equals the length of the
  pipeline's channel order, while an image that is not a color image is published as it
  came. If alpha is the last tag of the image's order and not its only one, the buffer
  has one band per tag, and the raster the stage goes on with (the image's own, or the
  reordered one for a color image in another order) has alpha as its last band too,
  then that alpha band goes to the context and the published raster holds the bands
  before it: its last-axis extent is the length of the raster's order less one, and a
  raster of one band is reshaped to two axes. Orders that hold alpha elsewhere are left
  out.
\<close>

theorem Reorder_last_extent:
  assumes run: "Reorder_run tr img st i (h, s) = Inr (h', s')"
      and inp: "get_data i s = Inr (Some r)"
      and i: "i < length (results s)"
      and im: "image img = Some im"
  shows "\<exists>out. published_at i (Inr (h', s')) = Some out \<and>
           (case index_of (CHR ''A'') (img_order im) of
              None \<Rightarrow>
                c_alpha s' = None \<and>
                (if is_rgb im
                 then last_extent (h ! r) = length (img_order im) \<longrightarrow> last_extent out = length (order st)
                 else out = h ! r)
            | Some k \<Rightarrow>
                0 < k \<and> alpha_last (img_order im) k \<and> alpha_last (data_order im st) k
                  \<and> last_extent (h ! r) = length (img_order im) \<longrightarrow>
                (\<exists>data al front.
                    reordered tr im st (h ! r) = Inr data \<and> last_extent data = Suc k
                  \<and> c_alpha s' = Some al \<and> take_band data k = Inr (h' ! al)
                  \<and> take_bands data k = Inr front \<and> out = drop_unit_depth front
                  \<and> (if k = 1 then ndim out = 2 else last_extent out = k)))"
proof -
  let ?c = "is_rgb im \<and> img_order im \<noteq> order st"
  from Reorder_run_Inr [OF run inp im] obtain data where
    d: "(if ?c then reorder_image (amax tr) (order st) (h ! r) (img_order im) else Inr (h ! r)) = Inr data"
    and rest: "case index_of (CHR ''A'') (img_order im) of
              None \<Rightarrow>
                h' = (if ?c then h @ [data] else h) \<and>
                s' = (send i (Some (if ?c then length h else r)) s)\<lparr>c_alpha := None\<rparr>
            | Some k \<Rightarrow>
                (\<exists>al front.
                   take_band data k = Inr al \<and> take_bands data k = Inr front \<and> ndim front = 3 \<and>
                   h' = (if ?c then h @ [data] else h) @ [al, drop_unit_depth front] \<and>
                   s' = (send i (Some (Suc (length h'  - 2))) s)\<lparr>c_alpha := Some (length h' - 2)\<rparr>)"
    by blast
  from d have d': "reordered tr im st (h ! r) = Inr data" by (simp add: reordered_def)
  show ?thesis
  proof (cases "index_of (CHR ''A'') (img_order im)")
    case None
    with rest have h': "h' = (if ?c then h @ [data] else h)"
      and s': "s' = (send i (Some (if ?c then length h else r)) s)\<lparr>c_alpha := None\<rparr>"
      by simp_all
    from s' have ca: "c_alpha s' = None" by simp
    show ?thesis
    proof (cases ?c)
      case True
      with d have "reorder_image (amax tr) (order st) (h ! r) (img_order im) = Inr data" by simp
      from reorder_image_last_extent [OF this] True
      have "last_extent data = length (order st)" by auto
      moreover have "published_at i (Inr (h', s')) = Some data"
        using True h' s' i by (simp add: published_at_sent)
      ultimately show ?thesis using None True ca by simp
    next
      case False
      have h'': "h' = h" unfolding h' by (rule if_not_P [OF False])
      have "(if ?c then length h else r) = r" by (rule if_not_P [OF False])
      with s' have s'': "s' = (send i (Some r) s)\<lparr>c_alpha := None\<rparr>" by simp
      have "published_at i (Inr (h', s')) = Some (h ! r)"
        unfolding h'' s'' using i by (simp add: published_at_sent)
      moreover have "is_rgb im \<Longrightarrow> last_extent (h ! r) = length (img_order im)
                       \<Longrightarrow> last_extent (h ! r) = length (order st)"
        using False by simp
      ultimately show ?thesis using None ca by simp
    qed
  next
    case (Some k)
    with rest obtain band front where
      tb: "take_band data k = Inr band" and tbs: "take_bands data k = Inr front"
      and nf: "ndim front = 3"
      and h': "h' = (if ?c then h @ [data] else h) @ [band, drop_unit_depth front]"
      and s': "s' = (send i (Some (Suc (length h'  - 2))) s)\<lparr>c_alpha := Some (length h' - 2)\<rparr>"
      by auto
    from h' have nth: "h' ! Suc (length h' - 2) = drop_unit_depth front"
      by (simp add: nth_append)
    from h' have nthb: "h' ! (length h' - 2) = band"
      by (simp add: nth_append)
    from s' have ca: "c_alpha s' = Some (length h' - 2)" by simp
    have pub: "published_at i (Inr (h', s')) = Some (drop_unit_depth front)"
      unfolding s' using i nth by (simp add: published_at_sent)
    from last_extent_front [OF tb tbs nf]
    have sf: "shape front = [shape data ! 0, shape data ! 1, k]" .
    have ext: "if k = 1 then ndim (drop_unit_depth front) = 2
          else last_extent (drop_unit_depth front) = k"
      using sf by (simp add: drop_unit_depth_def Let_def ndim_def last_extent_def)
    have ld: "last_extent data = Suc k"
      if al: "alpha_last (data_order im st) k" and le: "last_extent (h ! r) = length (img_order im)"
    proof (cases ?c)
      case True
      with d have "reorder_image (amax tr) (order st) (h ! r) (img_order im) = Inr data" by simp
      from reorder_image_last_extent [OF this] True
      have "last_extent data = length (order st)" by auto
      with al True show ?thesis by (simp add: alpha_last_def data_order_def)
    next
      case False
      have "(if ?c then reorder_image (amax tr) (order st) (h ! r) (img_order im) else Inr (h ! r))
              = Inr (h ! r)" by (rule if_not_P [OF False])
      with d have dd: "data = h ! r" by simp
      have "data_order im st = img_order im" unfolding data_order_def by (rule if_not_P [OF False])
      with al le dd show ?thesis by (simp add: alpha_last_def)
    qed
    have "0 < k \<and> alpha_last (img_order im) k \<and> alpha_last (data_order im st) k
            \<and> last_extent (h ! r) = length (img_order im) \<longrightarrow>
          (\<exists>data al front'.
              reordered tr im st (h ! r) = Inr data \<and> last_extent data = Suc k
            \<and> c_alpha s' = Some al \<and> take_band data k = Inr (h' ! al)
            \<and> take_bands data k = Inr front' \<and> drop_unit_depth front = drop_unit_depth front'
            \<and> (if k = 1 then ndim (drop_unit_depth front) = 2
                else last_extent (drop_unit_depth front) = k))"
      using d' ld ca tb nthb tbs ext by blast
    with pub Some show ?thesis by simp
  qed
qed


text \<open>
  Claim C6 as stated fails: an RGBA image in a pipeline whose order is RGBA is published
  with three bands, the alpha band having gone to the context; the order has four tags.
\<close>

theorem Reorder_last_extent_counterexample:
  "published_at 1
     (Reorder_run ex_trcalc
        (ex_cvs (Some \<lparr>data_np = NDArray [1, 1, 4] [1, 2, 3, 4], img_order = ''RGBA'', is_rgb = True\<rparr>) 0 0)
        ex_state 1
        ([NDArray [1, 1, 4] [1, 2, 3, 4]], (new_pipe 3 ex_cache)\<lparr>results := [Some 0, None, None]\<rparr>))
   = Some (NDArray [1, 1, 3] [1, 2, 3])
   \<and> length (order ex_state) = 4"
  by code_simp

text \<open>
  A BGR color image of two pixels in a pipeline whose order is RGBA: the published
  raster has four bands. A BGRA color image of two pixels in the same pipeline: the
  raster is reordered to RGBA, its alpha band goes to the context (address 2) and the
  published raster (address 3) has the three bands before it.
\<close>

theorem Reorder_last_extent_witness:
  "get_data 1 ((new_pipe 3 ex_cache)\<lparr>results := [Some 0, None, None]\<rparr>) = Inr (Some 0)
   \<and> published_at 1
        (Reorder_run ex_trcalc
           (ex_cvs (Some \<lparr>data_np = NDArray [1, 2, 3] [1, 2, 3, 4, 5, 6], img_order = ''BGR'', is_rgb = True\<rparr>) 0 0)
           ex_state 1
           ([NDArray [1, 2, 3] [1, 2, 3, 4, 5, 6]], (new_pipe 3 ex_cache)\<lparr>results := [Some 0, None, None]\<rparr>))
       = Some (NDArray [1, 2, 4] [3, 2, 1, 255, 6, 5, 4, 255])
   \<and> last_extent (NDArray [1, 2, 4] [3, 2, 1, 255, 6, 5, 4, 255 :: nat]) = length (order ex_state)
   \<and> alpha_last ''BGRA'' 3
   \<and> alpha_last
        (data_order \<lparr>data_np = NDArray [1, 2, 4] [1, 2, 3, 4, 5, 6, 7, 8 :: nat], img_order = ''BGRA'',
                      is_rgb = True\<rparr> ex_state) 3
   \<and> Reorder_run ex_trcalc
        (ex_cvs (Some \<lparr>data_np = NDArray [1, 2, 4] [1, 2, 3, 4, 5, 6, 7, 8], img_order = ''BGRA'', is_rgb = True\<rparr>) 0 0)
        ex_state 1
        ([NDArray [1, 2, 4] [1, 2, 3, 4, 5, 6, 7, 8]], (new_pipe 3 ex_cache)\<lparr>results := [Some 0, None, None]\<rparr>)
       = Inr ([NDArray [1, 2, 4] [1, 2, 3, 4, 5, 6, 7, 8], NDArray [1, 2, 4] [3, 2, 1, 4, 7, 6, 5, 8],
               NDArray [1, 2] [4, 8], NDArray [1, 2, 3] [3, 2, 1, 7, 6, 5]],
              (new_pipe 3 ex_cache)\<lparr>results := [Some 0, Some 3, None], c_alpha := Some 2\<rparr>)
   \<and> last_extent (NDArray [1, 2, 3] [3, 2, 1, 7, 6, 5 :: nat]) = 3"
proof -
  let ?s = "(new_pipe 3 ex_cache)\<lparr>results := [Some 0, None, None]\<rparr>"
  let ?im = "\<lparr>data_np = NDArray [1, 2, 3] [1, 2, 3, 4, 5, 6 :: nat], img_order = ''BGR'', is_rgb = True\<rparr>"
  let ?out = "NDArray [1, 2, 4] [3, 2, 1, 255, 6, 5, 4, 255 :: nat]"
  let ?r2 = "NDArray [1, 2, 4] [1, 2, 3, 4, 5, 6, 7, 8 :: nat]"
  let ?im2 = "\<lparr>data_np = ?r2, img_order = ''BGRA'', is_rgb = True\<rparr>"
  let ?h2 = "[?r2, NDArray [1, 2, 4] [3, 2, 1, 4, 7, 6, 5, 8],
              NDArray [1, 2] [4, 8], NDArray [1, 2, 3] [3, 2, 1, 7, 6, 5]]"
  let ?s2 = "(new_pipe 3 ex_cache)\<lparr>results := [Some 0, Some 3, None], c_alpha := Some 2\<rparr>"
  let ?out2 = "NDArray [1, 2, 3] [3, 2, 1, 7, 6, 5 :: nat]"
  have inp: "get_data 1 ?s = Inr (Some 0)" by code_simp
  have i: "1 < length (results ?s)" by code_simp
  have im: "image (ex_cvs (Some ?im) 0 0) = Some ?im" by (simp add: ex_cvs_def)
  have run: "Reorder_run ex_trcalc (ex_cvs (Some ?im) 0 0) ex_state 1
        ([NDArray [1, 2, 3] [1, 2, 3, 4, 5, 6]], ?s)
       = Inr ([NDArray [1, 2, 3] [1, 2, 3, 4, 5, 6], ?out],
              (new_pipe 3 ex_cache)\<lparr>results := [Some 0, Some 1, None]\<rparr>)"
    by code_simp
  have pub: "published_at 1
         (Inr ([NDArray [1, 2, 3] [1, 2, 3, 4, 5, 6], ?out],
               (new_pipe 3 ex_cache)\<lparr>results := [Some 0, Some 1, None]\<rparr>))
       = Some ?out"
    by code_simp
  from Reorder_last_extent [OF run inp i im] pub
  have e1: "last_extent ?out = length (order ex_state)" by (simp add: last_extent_def)
  have im2: "image (ex_cvs (Some ?im2) 0 0) = Some ?im2" by (simp add: ex_cvs_def)
  have a1: "alpha_last ''BGRA'' 3" by code_simp
  have a2: "alpha_last (data_order ?im2 ex_state) 3" by code_simp
  have le2: "last_extent ([?r2] ! 0) = length (img_order ?im2)" by code_simp
  have ix: "index_of (CHR ''A'') (img_order ?im2) = Some 3" by code_simp
  have run2: "Reorder_run ex_trcalc (ex_cvs (Some ?im2) 0 0) ex_state 1 ([?r2], ?s) = Inr (?h2, ?s2)"
    by code_simp
  have pub2: "published_at 1 (Inr (?h2, ?s2)) = Some ?out2" by code_simp
  from Reorder_last_extent [OF run2 inp i im2] obtain out where
    o: "published_at 1 (Inr (?h2, ?s2)) = Some out"
    and c: "case index_of (CHR ''A'') (img_order ?im2) of
              None \<Rightarrow> True
            | Some k \<Rightarrow>
                0 < k \<and> alpha_last (img_order ?im2) k \<and> alpha_last (data_order ?im2 ex_state) k
                  \<and> last_extent ([?r2] ! 0) = length (img_order ?im2) \<longrightarrow>
                (if k = 1 then ndim out = 2 else last_extent out = k)"
    by (auto split: option.splits)
  from o pub2 have oo: "out = ?out2" by simp
  from c a1 a2 le2 have e2: "last_extent out = 3" unfolding ix by simp
  from inp run pub e1 a1 a2 run2 e2 oo show ?thesis by simp
qed

text \<open>
  Orders that hold alpha elsewhere: for an ARGB color image in a pipeline whose order is
  RGBA the stage reads the position of alpha from the image's order after the raster
  was reordered. Band 0 of the reordered raster, the red one, goes to the context as
  alpha, and the raster published is the empty one before it.
\<close>

lemma Reorder_alpha_position_after_reorder:
  "Reorder_run ex_trcalc
     (ex_cvs (Some \<lparr>data_np = NDArray [1, 1, 4] [9, 1, 2, 3], img_order = ''ARGB'', is_rgb = True\<rparr>) 0 0)
     ex_state 1
     ([NDArray [1, 1, 4] [9, 1, 2, 3]], (new_pipe 3 ex_cache)\<lparr>results := [Some 0, None, None]\<rparr>)
   = Inr ([NDArray [1, 1, 4] [9, 1, 2, 3], NDArray [1, 1, 4] [1, 2, 3, 9],
           NDArray [1, 1] [1], NDArray [1, 1, 0] []],
          (new_pipe 3 ex_cache)\<lparr>results := [Some 0, Some 3, None], c_alpha := Some 2\<rparr>)"
  by code_simp

subsection \<open>The partial re-run policy\<close>

lemma norm_stages_nth:
  "norm_stages ! 0 = Scale" "norm_stages ! 2 = Cuts" "norm_stages ! 3 = RGBMap" "norm_stages ! 4 = Merge"
  by (simp_all add: norm_stages_def)

lemma run_from_norm:
  "run_from vw tr img st d norm_stages Scale hc
     = run_stages vw tr img st d [Scale, Reorder, Cuts, RGBMap, Merge] 0 (fst hc, (snd hc)\<lparr>stop_req := False\<rparr>)"
  "run_from vw tr img st d norm_stages Cuts hc
     = run_stages vw tr img st d [Cuts, RGBMap, Merge] 2 (fst hc, (snd hc)\<lparr>stop_req := False\<rparr>)"
  "run_from vw tr img st d norm_stages RGBMap hc
     = run_stages vw tr img st d [RGBMap, Merge] 3 (fst hc, (snd hc)\<lparr>stop_req := False\<rparr>)"
  "run_from vw tr img st d norm_stages Merge hc
     = run_stages vw tr img st d [Merge] 4 (fst hc, (snd hc)\<lparr>stop_req := False\<rparr>)"
  by (simp_all add: run_from_def norm_stages_def eval_nat_numeral del: run_stages.simps)

text \<open>
  Claim C7. For a value-mapped overlay whose mini-pipeline is built, the partial re-run
  is selected by the invalidation level: at a level of 0 or less the run restarts at
  Scale (position 0) and runs all five stages; otherwise, if the object's cache marks it
  invisible, nothing runs and nothing changes; otherwise at a level up to 1 the run
  restarts at Cuts (position 2), at a level up to 2 at RGBMap (position 3), and at any
  higher level only Merge (position 4) runs.
\<close>

theorem prepare_norm_image_entry:
  assumes "built c"
  shows "prepare_norm_image vw tr st dstarr img whence (h, c) =
     (if whence \<le> 0
      then run_stages vw tr img st dstarr [Scale, Reorder, Cuts, RGBMap, Merge] 0
             (h, c\<lparr>stop_req := False\<rparr>)
      else if \<not> visible c then Inr (h, c)
      else if whence \<le> 1
      then run_stages vw tr img st dstarr [Cuts, RGBMap, Merge] 2 (h, c\<lparr>stop_req := False\<rparr>)
      else if whence \<le> 2
      then run_stages vw tr img st dstarr [RGBMap, Merge] 3 (h, c\<lparr>stop_req := False\<rparr>)
      else run_stages vw tr img st dstarr [Merge] 4 (h, c\<lparr>stop_req := False\<rparr>))"
  using assms by (simp add: prepare_norm_image_def norm_stages_nth run_from_norm)

text \<open>
  A built mini-pipeline at level 1.5, the object visible, with the index raster that Cuts
  published: RGBMap and Merge run, and the mapped pixel lands in the destination.
\<close>

theorem prepare_norm_image_entry_witness:
  "built \<lparr>built = True, visible = True, drawn = False,
           results = [Some 1, Some 1, Some 1, None, None], stop_req = False,
           c_offset = Some (0, 0), c_alpha = None\<rparr>
   \<and> prepare_norm_image ex_viewer ex_trcalc ex_state 0 (ex_cvs None 0 0) (3 / 2)
         ([NDArray [2, 2, 4] [0, 0, 0, 0, 0, 0, 0, 0, 0, 0, 0, 0, 0, 0, 0, 0], NDArray [1, 1] [7]],
          \<lparr>built = True, visible = True, drawn = False,
             results = [Some 1, Some 1, Some 1, None, None], stop_req = False,
             c_offset = Some (0, 0), c_alpha = None\<rparr>)
       = Inr ([NDArray [2, 2, 4] [0, 0, 0, 0, 0, 0, 0, 0, 0, 0, 0, 0, 7, 7, 7, 255],
               NDArray [1, 1] [7], NDArray [1, 1, 4] [7, 7, 7, 255]],
              \<lparr>built = True, visible = True, drawn = True,
                 results = [Some 1, Some 1, Some 1, Some 2, None], stop_req = False,
                 c_offset = Some (0, 0), c_alpha = None\<rparr>)"
proof -
  let ?c = "\<lparr>built = True, visible = True, drawn = False,
             results = [Some 1, Some 1, Some 1, None, None], stop_req = False,
             c_offset = Some (0, 0), c_alpha = None\<rparr>"
  let ?h = "[NDArray [2, 2, 4] [0, 0, 0, 0, 0, 0, 0, 0, 0, 0, 0, 0, 0, 0, 0, 0], NDArray [1, 1] [7 :: nat]]"
  have b: "built ?c" by simp
  have run: "run_stages ex_viewer ex_trcalc (ex_cvs None 0 0) ex_state 0 [RGBMap, Merge] 3
               (?h, ?c\<lparr>stop_req := False\<rparr>)
       = Inr ([NDArray [2, 2, 4] [0, 0, 0, 0, 0, 0, 0, 0, 0, 0, 0, 0, 7, 7, 7, 255],
               NDArray [1, 1] [7], NDArray [1, 1, 4] [7, 7, 7, 255]],
              \<lparr>built = True, visible = True, drawn = True,
                 results = [Some 1, Some 1, Some 1, Some 2, None], stop_req = False,
                 c_offset = Some (0, 0), c_alpha = None\<rparr>)"
    by code_simp
  from prepare_norm_image_entry [OF b, of ex_viewer ex_trcalc ex_state 0 "ex_cvs None 0 0" "3 / 2" ?h]
  have "prepare_norm_image ex_viewer ex_trcalc ex_state 0 (ex_cvs None 0 0) (3 / 2) (?h, ?c)
       = run_stages ex_viewer ex_trcalc (ex_cvs None 0 0) ex_state 0 [RGBMap, Merge] 3
               (?h, ?c\<lparr>stop_req := False\<rparr>)"
    by (simp del: run_stages.simps)
  with run b show ?thesis by (simp del: run_stages.simps)
qed

subsection \<open>A mini-pipeline with nothing to do\<close>

lemma Reorder_None:
  "get_data i s = Inr None \<Longrightarrow> Reorder_run tr img st i (h, s) = Inr (h, send i None s)"
  by (simp add: Reorder_run_def)

lemma Cuts_None:
  "get_data i s = Inr None \<Longrightarrow> Cuts_run vw tr img i (h, s) = Inr (h, send i None s)"
  by (simp add: Cuts_run_def)

lemma RGBMap_None:
  "get_data i s = Inr None \<Longrightarrow> RGBMap_run vw tr img st i (h, s) = Inr (h, send i None s)"
  by (simp add: RGBMap_run_def)

lemma Merge_None:
  "get_data i s = Inr None \<Longrightarrow> Merge_run tr img st dstarr i (h, s) = Inr (h, s)"
  by (simp add: Merge_run_def)

lemma get_data_first: "0 < length (results s) \<Longrightarrow> get_data (Suc 0) s = Inr (results s ! 0)"
  by (simp add: get_data_def)

lemma get_data_send:
  "Suc i \<le> length (results s) \<Longrightarrow> get_data (Suc i) (send i v s) = Inr v"
  by (simp add: get_data_def send_def)

lemma send_simps [simp]:
  "stop_req (send i v s) = stop_req s" "drawn (send i v s) = drawn s"
  "visible (send i v s) = visible s" "length (results (send i v s)) = length (results s)"
  by (simp_all add: send_def)

lemma norm_tail_None:
  assumes "results s ! 0 = None" and "length (results s) = 5"
  shows "\<exists>s'. run_stages vw tr img st dstarr [Reorder, Cuts, RGBMap, Merge] 1 (h, s) = Inr (h, s')
              \<and> drawn s' = drawn s \<and> visible s' = visible s"
proof (cases "stop_req s")
  case True
  then show ?thesis by simp
next
  case False
  have g1: "get_data (Suc 0) s = Inr None" using assms by (simp add: get_data_first)
  let ?s1 = "send (Suc 0) None s"
  have g2: "get_data (Suc (Suc 0)) ?s1 = Inr None" using assms by (simp add: get_data_send)
  let ?s2 = "send (Suc (Suc 0)) None ?s1"
  have g3: "get_data (Suc (Suc (Suc 0))) ?s2 = Inr None" using assms by (simp add: get_data_send)
  let ?s3 = "send (Suc (Suc (Suc 0))) None ?s2"
  have g4: "get_data (Suc (Suc (Suc (Suc 0)))) ?s3 = Inr None" using assms by (simp add: get_data_send)
  have "run_stages vw tr img st dstarr [Reorder, Cuts, RGBMap, Merge] 1 (h, s) = Inr (h, ?s3)"
    using False
    by (simp add: run_stage_def Reorder_None [OF g1] Cuts_None [OF g2] RGBMap_None [OF g3]
          Merge_None [OF g4])
  then show ?thesis by simp
qed

lemma image_tail_None:
  assumes "results s ! 0 = None" and "length (results s) = 3"
  shows "\<exists>s'. run_stages vw tr img st dstarr [Reorder, Merge] 1 (h, s) = Inr (h, s')
              \<and> drawn s' = drawn s \<and> visible s' = visible s"
proof (cases "stop_req s")
  case True
  then show ?thesis by simp
next
  case False
  have g1: "get_data (Suc 0) s = Inr None" using assms by (simp add: get_data_first)
  let ?s1 = "send (Suc 0) None s"
  have g2: "get_data (Suc (Suc 0)) ?s1 = Inr None" using assms by (simp add: get_data_send)
  have "run_stages vw tr img st dstarr [Reorder, Merge] 1 (h, s) = Inr (h, ?s1)"
    using False
    by (simp add: run_stage_def Reorder_None [OF g1] Merge_None [OF g2])
  then show ?thesis by simp
qed


lemma Scale_imageless:
  "image img = None \<Longrightarrow> Scale_run vw tr img i (h, s) = Inr (h, send i None s)"
  by (simp add: Scale_run_def)

lemma results_send_same:
  "i < length (results s) \<Longrightarrow> results (send i v s) ! i = v"
  by (simp add: send_def)

lemma norm_run_imageless:
  assumes img: "image img = None" and len: "length (results s) = 5"
  shows "\<exists>s'. run_stages vw tr img st dstarr norm_stages 0 (h, s\<lparr>stop_req := False\<rparr>) = Inr (h, s')
              \<and> drawn s' = drawn s \<and> visible s' = visible s"
proof -
  let ?s0 = "send 0 None (s\<lparr>stop_req := False\<rparr>)"
  have r0: "results ?s0 ! 0 = None" using len by (simp add: results_send_same)
  have l0: "length (results ?s0) = 5" using len by simp
  have step: "run_stages vw tr img st dstarr norm_stages 0 (h, s\<lparr>stop_req := False\<rparr>)
                = run_stages vw tr img st dstarr [Reorder, Cuts, RGBMap, Merge] 1 (h, ?s0)"
    unfolding norm_stages_def
    by (subst run_stages.simps(2))
       (simp add: run_stage_def Scale_imageless [OF img] del: run_stages.simps)
  from norm_tail_None [OF r0 l0, of vw tr img st dstarr h] show ?thesis
    unfolding step by simp
qed

lemma image_run_imageless:
  assumes img: "image img = None" and len: "length (results s) = 3"
  shows "\<exists>s'. run_stages vw tr img st dstarr image_stages 0 (h, s\<lparr>stop_req := False\<rparr>) = Inr (h, s')
              \<and> drawn s' = drawn s \<and> visible s' = visible s"
proof -
  let ?s0 = "send 0 None (s\<lparr>stop_req := False\<rparr>)"
  have r0: "results ?s0 ! 0 = None" using len by (simp add: results_send_same)
  have l0: "length (results ?s0) = 3" using len by simp
  have step: "run_stages vw tr img st dstarr image_stages 0 (h, s\<lparr>stop_req := False\<rparr>)
                = run_stages vw tr img st dstarr [Reorder, Merge] 1 (h, ?s0)"
    unfolding image_stages_def
    by (subst run_stages.simps(2))
       (simp add: run_stage_def Scale_imageless [OF img] del: run_stages.simps)
  from image_tail_None [OF r0 l0, of vw tr img st dstarr h] show ?thesis
    unfolding step by simp
qed

text \<open>
  Claim C10. When a mini-pipeline stage receives \<^verbatim>\<open>None\<close> as its predecessor's published
  output, Reorder, Cuts and RGBMap each publish \<^verbatim>\<open>None\<close> without raising, and Merge
  returns with the heap, the shared destination buffer in it, and its object's state
  unchanged. So the stages after Scale, run on a \<^verbatim>\<open>None\<close> that Scale published (for an
  object it found invisible, or one without an image), end without an exception and
  with the same heap, in the pipeline of a value-mapped image and in that of a plain
  one; and the whole run from Scale does for an object without an image.
\<close>

theorem None_flows_through:
  "(get_data i s = Inr None \<longrightarrow>
      Reorder_run tr img st i (h, s) = Inr (h, send i None s)
      \<and> Cuts_run vw tr img i (h, s) = Inr (h, send i None s)
      \<and> RGBMap_run vw tr img st i (h, s) = Inr (h, send i None s)
      \<and> Merge_run tr img st dstarr i (h, s) = Inr (h, s))
   \<and> (results s ! 0 = None \<and> length (results s) = 5 \<longrightarrow>
        (\<exists>s'. run_stages vw tr img st dstarr [Reorder, Cuts, RGBMap, Merge] 1 (h, s) = Inr (h, s')
              \<and> drawn s' = drawn s))
   \<and> (results s ! 0 = None \<and> length (results s) = 3 \<longrightarrow>
        (\<exists>s'. run_stages vw tr img st dstarr [Reorder, Merge] 1 (h, s) = Inr (h, s')
              \<and> drawn s' = drawn s))
   \<and> (image img = None \<and> length (results s) = 5 \<longrightarrow>
        (\<exists>s'. run_stages vw tr img st dstarr norm_stages 0 (h, s\<lparr>stop_req := False\<rparr>) = Inr (h, s')
              \<and> drawn s' = drawn s))
   \<and> (image img = None \<and> length (results s) = 3 \<longrightarrow>
        (\<exists>s'. run_stages vw tr img st dstarr image_stages 0 (h, s\<lparr>stop_req := False\<rparr>) = Inr (h, s')
              \<and> drawn s' = drawn s))"
  using norm_tail_None [of s vw tr img st dstarr h] image_tail_None [of s vw tr img st dstarr h]
    norm_run_imageless [of img s vw tr st dstarr h] image_run_imageless [of img s vw tr st dstarr h]
  by (auto simp: Reorder_None Cuts_None RGBMap_None Merge_None simp del: run_stages.simps)


text \<open>
  New pipelines of five and of three stages that have published nothing, for an object
  without an image, over a heap that holds one raster: every run ends with the same
  heap.
\<close>

theorem None_flows_through_witness:
  "get_data 2 (new_pipe 5 ex_cache) = Inr None
   \<and> results (new_pipe 5 ex_cache) ! 0 = None \<and> length (results (new_pipe 5 ex_cache)) = 5
   \<and> results (new_pipe 3 ex_cache) ! 0 = None \<and> length (results (new_pipe 3 ex_cache)) = 3
   \<and> image (ex_cvs None 0 0) = None
   \<and> Cuts_run ex_viewer ex_trcalc (ex_cvs None 0 0) 2 ([NDArray [1, 1, 4] [9, 9, 9, 9]], new_pipe 5 ex_cache)
       = Inr ([NDArray [1, 1, 4] [9, 9, 9, 9]], new_pipe 5 ex_cache)
   \<and> Merge_run ex_trcalc (ex_cvs None 0 0) ex_state 0 2 ([NDArray [1, 1, 4] [9, 9, 9, 9]], new_pipe 5 ex_cache)
       = Inr ([NDArray [1, 1, 4] [9, 9, 9, 9]], new_pipe 5 ex_cache)
   \<and> run_stages ex_viewer ex_trcalc (ex_cvs None 0 0) ex_state 0 norm_stages 0
         ([NDArray [1, 1, 4] [9, 9, 9, 9]], (new_pipe 5 ex_cache)\<lparr>stop_req := False\<rparr>)
       = Inr ([NDArray [1, 1, 4] [9, 9, 9, 9]], new_pipe 5 ex_cache)
   \<and> run_stages ex_viewer ex_trcalc (ex_cvs None 0 0) ex_state 0 image_stages 0
         ([NDArray [1, 1, 4] [9, 9, 9, 9]], (new_pipe 3 ex_cache)\<lparr>stop_req := False\<rparr>)
       = Inr ([NDArray [1, 1, 4] [9, 9, 9, 9]], new_pipe 3 ex_cache)"
proof -
  let ?h = "[NDArray [1, 1, 4] [9, 9, 9, 9 :: nat]]"
  let ?img = "ex_cvs None 0 0"
  have g: "get_data 2 (new_pipe 5 ex_cache) = Inr None" by code_simp
  have r5: "results (new_pipe 5 ex_cache) ! 0 = None \<and> length (results (new_pipe 5 ex_cache)) = 5"
    by code_simp
  have r3: "results (new_pipe 3 ex_cache) ! 0 = None \<and> length (results (new_pipe 3 ex_cache)) = 3"
    by code_simp
  have im: "image ?img = None" by (simp add: ex_cvs_def)
  have same: "send 2 None (new_pipe 5 ex_cache) = new_pipe 5 ex_cache" by code_simp
  from None_flows_through [of 2 "new_pipe 5 ex_cache" ex_trcalc ?img ex_state ?h ex_viewer 0] g same
  have stages: "Cuts_run ex_viewer ex_trcalc ?img 2 (?h, new_pipe 5 ex_cache) = Inr (?h, new_pipe 5 ex_cache)
     \<and> Merge_run ex_trcalc ?img ex_state 0 2 (?h, new_pipe 5 ex_cache) = Inr (?h, new_pipe 5 ex_cache)"
    by (simp del: run_stages.simps)
  have n: "run_stages ex_viewer ex_trcalc ?img ex_state 0 norm_stages 0
         (?h, (new_pipe 5 ex_cache)\<lparr>stop_req := False\<rparr>) = Inr (?h, new_pipe 5 ex_cache)"
    by code_simp
  have m: "run_stages ex_viewer ex_trcalc ?img ex_state 0 image_stages 0
         (?h, (new_pipe 3 ex_cache)\<lparr>stop_req := False\<rparr>) = Inr (?h, new_pipe 3 ex_cache)"
    by code_simp
  from g r5 r3 im stages n m show ?thesis by (simp del: run_stages.simps)
qed

subsection \<open>An overlay off the screen\<close>

lemma Scale_run_off_screen:
  assumes im: "image img = Some im" and nd: "2 \<le> ndim (data_np im)" and dr: "draw_rect vw \<noteq> []"
      and off: "off_screen (Scale_clip vw tr img im)"
  shows "Scale_run vw tr img i (h, s) = Inr (h, (send i None s)\<lparr>visible := False, stop_req := True\<rparr>)"
proof -
  obtain dx dy a1 b1 a2 b2 where c: "Scale_clip vw tr img im = ((dx, dy), (a1, b1), (a2, b2))"
    by (metis surj_pair)
  with off have t: "a2 - a1 \<le> 0 \<or> b2 - b1 \<le> 0" by (simp add: off_screen_def)
  show ?thesis
    using t by (simp add: Scale_run_def im verify_2d_raster [OF nd] dr c)
qed

lemma run_stages_stopped: "stop_req (snd hs) \<Longrightarrow> run_stages vw tr img st dstarr gs i hs = Inr hs"
  by (cases gs) simp_all

lemma run_off_screen:
  assumes im: "image img = Some im" and nd: "2 \<le> ndim (data_np im)" and dr: "draw_rect vw \<noteq> []"
      and off: "off_screen (Scale_clip vw tr img im)"
  shows "run_stages vw tr img st dstarr (Scale # gs) 0 (h, s\<lparr>stop_req := False\<rparr>)
           = Inr (h, (send 0 None (s\<lparr>stop_req := False\<rparr>))\<lparr>visible := False, stop_req := True\<rparr>)"
  by (subst run_stages.simps(2))
     (simp add: run_stage_def Scale_run_off_screen [OF im nd dr off] run_stages_stopped
        del: run_stages.simps)

lemma prepare_image_off_screen:
  assumes im: "image img = Some im" and nd: "2 \<le> ndim (data_np im)" and dr: "draw_rect vw \<noteq> []"
      and off: "off_screen (Scale_clip vw tr img im)" and w: "whence \<le> 0"
  shows "prepare_image vw tr st dstarr img whence (h, c)
           = Inr (h, (send 0 None ((if \<not> built c then new_pipe 3 c else c)\<lparr>stop_req := False\<rparr>))
                       \<lparr>visible := False, stop_req := True\<rparr>)"
  using w
  by (simp add: prepare_image_def image_stages_def run_from_def
        run_off_screen [OF im nd dr off] del: run_stages.simps)

lemma prepare_norm_image_off_screen:
  assumes im: "image img = Some im" and nd: "2 \<le> ndim (data_np im)" and dr: "draw_rect vw \<noteq> []"
      and off: "off_screen (Scale_clip vw tr img im)" and w: "whence \<le> 0"
  shows "prepare_norm_image vw tr st dstarr img whence (h, c)
           = Inr (h, (send 0 None ((if \<not> built c then new_pipe 5 c else c)\<lparr>stop_req := False\<rparr>))
                       \<lparr>visible := False, stop_req := True\<rparr>)"
  using w
  by (simp add: prepare_norm_image_def norm_stages_def run_from_def
        run_off_screen [OF im nd dr off] del: run_stages.simps)

text \<open>
  Claim C8. Whenever the intersection of the viewport with an overlay object's data
  rectangle is empty (the clipped rectangle that \<^verbatim>\<open>calc_image_merge_clip\<close> returns
  has no width or no height: the test "is image completely off the screen?" of
  \<^verbatim>\<open>Scale.run\<close>), the Scale stage publishes \<^verbatim>\<open>None\<close>, marks the object's cache
  invisible and requests the stop of its own pipeline, without an exception and without
  touching the heap. The object's sub-run, started from Scale at an invalidation level
  of 0 or less, ends there; the outer overlay pass goes on: its outcome is the outcome
  of the pass over the remaining objects from the same heap, with this object, marked
  invisible, in front. This holds for a plain and for a value-mapped image.
\<close>

theorem Scale_off_screen:
  assumes im: "image img = Some im" and nd: "2 \<le> ndim (data_np im)" and dr: "draw_rect vw \<noteq> []"
      and off: "off_screen (Scale_clip vw tr img im)" and w: "whence \<le> 0"
  shows "Scale_run vw tr img i (h, s)
           = Inr (h, (send i None s)\<lparr>visible := False, stop_req := True\<rparr>)
       \<and> overlay_images vw tr st dstarr whence (ImageObj img c # obs) h
           = (case overlay_images vw tr st dstarr whence obs h of
                Inl e \<Rightarrow> Inl e
              | Inr (h2, obs1) \<Rightarrow>
                  Inr (h2,
                       ImageObj img
                         ((send 0 None ((if \<not> built c then new_pipe 3 c else c)\<lparr>stop_req := False\<rparr>))
                            \<lparr>visible := False, stop_req := True\<rparr>) # obs1))
       \<and> overlay_images vw tr st dstarr whence (NormImageObj img c # obs) h
           = (case overlay_images vw tr st dstarr whence obs h of
                Inl e \<Rightarrow> Inl e
              | Inr (h2, obs1) \<Rightarrow>
                  Inr (h2,
                       NormImageObj img
                         ((send 0 None ((if \<not> built c then new_pipe 5 c else c)\<lparr>stop_req := False\<rparr>))
                            \<lparr>visible := False, stop_req := True\<rparr>) # obs1))"
  by (simp add: Scale_run_off_screen [OF im nd dr off]
        prepare_image_off_screen [OF im nd dr off w]
        prepare_norm_image_off_screen [OF im nd dr off w])

text \<open>
  With the clip helper as the spec describes it, the test holds whenever the object's
  rectangle, from its anchor \<open>dst\<close> to \<open>dst + (a2 - a1, b2 - b1)\<close>, and the viewport
  from \<open>(x1, y1)\<close> to \<open>(x2, y2)\<close> have no point in common.
\<close>

lemma clip_disjoint_off_screen:
  assumes "fst dst + (a2 - a1) < x1 \<or> x2 < fst dst \<or> snd dst + (b2 - b1) < y1 \<or> y2 < snd dst"
  shows "off_screen (calc_image_merge_clip (x1, y1) (x2, y2) dst (a1, b1) (a2, b2))"
  using assms by (auto simp: off_screen_def calc_image_merge_clip_def Let_def max_def)


text \<open>
  A pass over two objects in a viewport from \<open>(-1, -1)\<close> to \<open>(11, 11)\<close>: a plain image
  at \<open>(20, 20)\<close>, off the screen, and a value-mapped image at \<open>(5.5, 5.5)\<close>. The first is
  marked invisible and leaves the heap alone; the second is scaled, cut, mapped and
  merged into the destination.
\<close>

theorem Scale_off_screen_witness:
  "image (ex_cvs (Some ex_mono) 20 20) = Some ex_mono \<and> 2 \<le> ndim (data_np ex_mono)
   \<and> draw_rect ex_viewer \<noteq> []
   \<and> off_screen (Scale_clip ex_viewer ex_trcalc (ex_cvs (Some ex_mono) 20 20) ex_mono)
   \<and> pass_outcome
        (overlay_images ex_viewer ex_trcalc ex_state_rgb 0 0
           [ImageObj (ex_cvs (Some ex_mono) 20 20) ex_cache,
            NormImageObj (ex_cvs (Some ex_mono) (11 / 2) (11 / 2)) ex_cache]
           [NDArray [2, 2, 3] [0, 0, 0, 0, 0, 0, 0, 0, 0, 0, 0, 0]])
       = Inr ([NDArray [2, 2, 3] [0, 0, 0, 0, 0, 0, 0, 0, 0, 1, 1, 1],
               NDArray [2, 2] [1, 2, 3, 4], NDArray [2, 2] [1, 2, 3, 4],
               NDArray [2, 2, 3] [1, 1, 1, 2, 2, 2, 3, 3, 3, 4, 4, 4]],
              [\<lparr>built = True, visible = False, drawn = False,
                 results = [None, None, None], stop_req = True, c_offset = None,
                 c_alpha = None\<rparr>,
               \<lparr>built = True, visible = True, drawn = True,
                 results = [Some 1, Some 1, Some 2, Some 3, None],
                 stop_req = False, c_offset = Some (0, 0), c_alpha = None\<rparr>])"
proof -
  let ?off = "ex_cvs (Some ex_mono) 20 20"
  let ?on = "ex_cvs (Some ex_mono) (11 / 2) (11 / 2)"
  let ?h = "[NDArray [2, 2, 3] [0, 0, 0, 0, 0, 0, 0, 0, 0, 0, 0, 0 :: nat]]"
  have im: "image ?off = Some ex_mono" by (simp add: ex_cvs_def)
  have nd: "2 \<le> ndim (data_np ex_mono)" by (simp add: ex_mono_def ndim_def)
  have dr: "draw_rect ex_viewer \<noteq> []" by (simp add: ex_viewer_def)
  have off: "off_screen (Scale_clip ex_viewer ex_trcalc ?off ex_mono)" by code_simp
  have w: "(0 :: real) \<le> 0" by simp
  have rest: "pass_outcome (overlay_images ex_viewer ex_trcalc ex_state_rgb 0 0 [NormImageObj ?on ex_cache] ?h)
       = Inr ([NDArray [2, 2, 3] [0, 0, 0, 0, 0, 0, 0, 0, 0, 1, 1, 1],
               NDArray [2, 2] [1, 2, 3, 4], NDArray [2, 2] [1, 2, 3, 4],
               NDArray [2, 2, 3] [1, 1, 1, 2, 2, 2, 3, 3, 3, 4, 4, 4]],
              [\<lparr>built = True, visible = True, drawn = True,
                 results = [Some 1, Some 1, Some 2, Some 3, None],
                 stop_req = False, c_offset = Some (0, 0), c_alpha = None\<rparr>])"
    by code_simp
  have c1: "(send 0 None ((if \<not> built ex_cache then new_pipe 3 ex_cache else ex_cache)\<lparr>stop_req := False\<rparr>))
              \<lparr>visible := False, stop_req := True\<rparr>
            = \<lparr>built = True, visible = False, drawn = False,
                 results = [None, None, None], stop_req = True, c_offset = None,
                 c_alpha = None\<rparr>"
    by code_simp
  from Scale_off_screen [OF im nd dr off w, of 0 ?h ex_cache ex_state_rgb 0 ex_cache "[NormImageObj ?on ex_cache]"]
  have "overlay_images ex_viewer ex_trcalc ex_state_rgb 0 0 [ImageObj ?off ex_cache, NormImageObj ?on ex_cache] ?h
          = (case overlay_images ex_viewer ex_trcalc ex_state_rgb 0 0 [NormImageObj ?on ex_cache] ?h of
                Inl e \<Rightarrow> Inl e
              | Inr (h2, obs1) \<Rightarrow>
                  Inr (h2,
                       ImageObj ?off
                         ((send 0 None ((if \<not> built ex_cache then new_pipe 3 ex_cache else ex_cache)\<lparr>stop_req := False\<rparr>))
                            \<lparr>visible := False, stop_req := True\<rparr>) # obs1))"
    by blast
  then have "pass_outcome (overlay_images ex_viewer ex_trcalc ex_state_rgb 0 0
                 [ImageObj ?off ex_cache, NormImageObj ?on ex_cache] ?h)
       = Inr ([NDArray [2, 2, 3] [0, 0, 0, 0, 0, 0, 0, 0, 0, 1, 1, 1],
               NDArray [2, 2] [1, 2, 3, 4], NDArray [2, 2] [1, 2, 3, 4],
               NDArray [2, 2, 3] [1, 1, 1, 2, 2, 2, 3, 3, 3, 4, 4, 4]],
              [\<lparr>built = True, visible = False, drawn = False,
                 results = [None, None, None], stop_req = True, c_offset = None,
                 c_alpha = None\<rparr>,
               \<lparr>built = True, visible = True, drawn = True,
                 results = [Some 1, Some 1, Some 2, Some 3, None],
                 stop_req = False, c_offset = Some (0, 0), c_alpha = None\<rparr>])"
    using rest unfolding c1
    by (auto simp: pass_outcome_def split: sum.splits simp del: overlay_images.simps overlay_obj.simps)
  with im nd dr off show ?thesis by blast
qed

subsection \<open>Stages and the buffers they receive\<close>

text \<open>
  The stages that put arrays on the heap leave every array that was there as it was.
\<close>

lemma Rotate_keeps:
  "Rotate_run bypass rot_deg invert_y rotate_clip st off (h, data) = Inr (h', dst, res)
     \<Longrightarrow> take (length h) h' = h"
  by (auto simp: Rotate_run_def Let_def split: sum.splits option.splits if_splits)

lemma Scale_keeps:
  "Scale_run vw tr img i (h, s) = Inr (h', s') \<Longrightarrow> take (length h) h' = h"
  by (auto simp: Scale_run_def Let_def split: sum.splits option.splits if_splits prod.splits)

lemma Reorder_keeps:
  "Reorder_run tr img st i (h, s) = Inr (h', s') \<Longrightarrow> take (length h) h' = h"
  by (auto simp: Reorder_run_def Let_def split: sum.splits option.splits if_splits)

lemma Cuts_keeps:
  "Cuts_run vw tr img i (h, s) = Inr (h', s') \<Longrightarrow> take (length h) h' = h"
  by (auto simp: Cuts_run_def Let_def split: sum.splits option.splits if_splits)

lemma RGBMap_keeps:
  "RGBMap_run vw tr img st i (h, s) = Inr (h', s') \<Longrightarrow> take (length h) h' = h"
  by (auto simp: RGBMap_run_def Let_def split: sum.splits option.splits if_splits)


lemma index_of_Some_mem: "index_of c xs = Some k \<Longrightarrow> c \<in> set xs"
  by (induction xs arbitrary: k) (auto split: if_splits)

lemma update_changed: "xs[i := x] ! j \<noteq> xs ! j \<Longrightarrow> i = j"
  by (metis nth_list_update_neq)

lemma Merge_keeps:
  assumes run: "Merge_run tr img st dstarr i (h, s) = Inr (h', s')"
      and a: "a < length h" "a \<noteq> dstarr"
  shows "h' ! a = h ! a
         \<or> (get_data i s = Inr (Some a) \<and> c_alpha s \<noteq> None \<and> CHR ''A'' \<in> set (order st)
             \<and> shape (h ! a) ! 2 = 4)"
  using run a
  by (auto simp: Merge_run_def Let_def nth_append index_of_Some_mem
           split: sum.splits option.splits if_splits prod.splits dest: update_changed)


text \<open>
  Rotate and the mini-pipeline stages Scale, Reorder, Cuts and RGBMap leave the contents
  of every buffer that existed before the run as they were: what they produce goes to
  new buffers, and Rotate copies before rotating in place. Merge writes to the shared
  destination; of the other buffers it can change only the raster it received, and
  only when the context holds a split-off alpha, the pipeline's order has an alpha tag
  and that raster has four bands. With another number of bands \<^verbatim>\<open>np.insert\<close> gives
  Merge an array of its own to write to.
\<close>

lemma stages_keep_buffers:
  "(Rotate_run bypass rot_deg invert_y rotate_clip st off (h, data) = Inr (h', dst, res)
      \<longrightarrow> take (length h) h' = h)
   \<and> (Scale_run vw tr img i (h, s) = Inr (h', s') \<longrightarrow> take (length h) h' = h)
   \<and> (Reorder_run tr img st i (h, s) = Inr (h', s') \<longrightarrow> take (length h) h' = h)
   \<and> (Cuts_run vw tr img i (h, s) = Inr (h', s') \<longrightarrow> take (length h) h' = h)
   \<and> (RGBMap_run vw tr img st i (h, s) = Inr (h', s') \<longrightarrow> take (length h) h' = h)
   \<and> (Merge_run tr img st dstarr i (h, s) = Inr (h', s') \<longrightarrow>
        (\<forall>a < length h. a \<noteq> dstarr \<longrightarrow>
           h' ! a = h ! a
           \<or> (get_data i s = Inr (Some a) \<and> c_alpha s \<noteq> None \<and> CHR ''A'' \<in> set (order st)
               \<and> shape (h ! a) ! 2 = 4)))"
  using Rotate_keeps [of bypass rot_deg invert_y rotate_clip st off h data h' dst res]
    Scale_keeps [of vw tr img i h s h' s'] Reorder_keeps [of tr img st i h s h' s']
    Cuts_keeps [of vw tr img i h s h' s'] RGBMap_keeps [of vw tr img st i h s h' s']
    Merge_keeps [of tr img st dstarr i h s h' s']
  by blast

text \<open>
  A rotation by 90 degrees, the four stages before Merge on a value image in view,
  and Merge on a raster of three bands with a split-off alpha: in each run the
  buffers that existed keep their contents (Merge changes the destination at address
  0 and inserts the alpha band into a new array at address 3).
\<close>

lemma stages_keep_buffers_example:
  "Rotate_run False 90 False ex_rotate_clip ex_state_rgb (1, 1) ([ex_dst], Some 0)
     = Inr ([ex_dst, ex_dst], (0, 0), Some 1)
   \<and> take (length [ex_dst]) [ex_dst, ex_dst] = [ex_dst]
   \<and> Scale_run ex_viewer ex_trcalc (ex_cvs (Some ex_mono) (11 / 2) (11 / 2)) 0
        ([ex_dst], new_pipe 5 ex_cache)
     = Inr ([ex_dst, NDArray [2, 2] [1, 2, 3, 4]],
            \<lparr>built = True, visible = True, drawn = False,
               results = [Some 1, None, None, None, None], stop_req = False,
               c_offset = Some (0, 0), c_alpha = None\<rparr>)
   \<and> Reorder_run ex_trcalc (ex_cvs (Some ex_mono) (11 / 2) (11 / 2)) ex_state_rgb 1
        ([ex_dst, NDArray [2, 2] [1, 2, 3, 4]],
         \<lparr>built = True, visible = True, drawn = False,
            results = [Some 1, None, None, None, None], stop_req = False,
            c_offset = Some (0, 0), c_alpha = None\<rparr>)
     = Inr ([ex_dst, NDArray [2, 2] [1, 2, 3, 4]],
            \<lparr>built = True, visible = True, drawn = False,
               results = [Some 1, Some 1, None, None, None], stop_req = False,
               c_offset = Some (0, 0), c_alpha = None\<rparr>)
   \<and> Cuts_run ex_viewer ex_trcalc (ex_cvs (Some ex_mono) (11 / 2) (11 / 2)) 2
        ([ex_dst, NDArray [2, 2] [1, 2, 3, 4]],
         \<lparr>built = True, visible = True, drawn = False,
            results = [Some 1, Some 1, None, None, None], stop_req = False,
            c_offset = Some (0, 0), c_alpha = None\<rparr>)
     = Inr ([ex_dst, NDArray [2, 2] [1, 2, 3, 4], NDArray [2, 2] [1, 2, 3, 4]],
            \<lparr>built = True, visible = True, drawn = False,
               results = [Some 1, Some 1, Some 2, None, None], stop_req = False,
               c_offset = Some (0, 0), c_alpha = None\<rparr>)
   \<and> RGBMap_run ex_viewer ex_trcalc (ex_cvs (Some ex_mono) (11 / 2) (11 / 2)) ex_state_rgb 3
        ([ex_dst, NDArray [2, 2] [1, 2, 3, 4], NDArray [2, 2] [1, 2, 3, 4]],
         \<lparr>built = True, visible = True, drawn = False,
            results = [Some 1, Some 1, Some 2, None, None], stop_req = False,
            c_offset = Some (0, 0), c_alpha = None\<rparr>)
     = Inr ([ex_dst, NDArray [2, 2] [1, 2, 3, 4], NDArray [2, 2] [1, 2, 3, 4],
             NDArray [2, 2, 3] [1, 1, 1, 2, 2, 2, 3, 3, 3, 4, 4, 4]],
            \<lparr>built = True, visible = True, drawn = False,
               results = [Some 1, Some 1, Some 2, Some 3, None], stop_req = False,
               c_offset = Some (0, 0), c_alpha = None\<rparr>)
   \<and> Merge_run ex_trcalc (ex_cvs None 0 0) ex_state 0 4
        ([NDArray [1, 1, 4] [0, 0, 0, 0], NDArray [1, 1, 3] [10, 20, 30], NDArray [1, 1] [7]],
         \<lparr>built = True, visible = True, drawn = False,
            results = [None, None, None, Some 1, None], stop_req = False,
            c_offset = Some (0, 0), c_alpha = Some 2\<rparr>)
     = Inr ([NDArray [1, 1, 4] [10, 20, 30, 7], NDArray [1, 1, 3] [10, 20, 30], NDArray [1, 1] [7],
             NDArray [1, 1, 4] [10, 20, 30, 7]],
            \<lparr>built = True, visible = True, drawn = True,
               results = [None, None, None, Some 1, None], stop_req = False,
               c_offset = Some (0, 0), c_alpha = Some 2\<rparr>)"
proof -
  let ?on = "ex_cvs (Some ex_mono) (11 / 2) (11 / 2)"
  let ?m = "NDArray [2, 2] [1, 2, 3, 4 :: nat]"
  have rot: "Rotate_run False 90 False ex_rotate_clip ex_state_rgb (1, 1) ([ex_dst], Some 0)
     = Inr ([ex_dst, ex_dst], (0, 0), Some 1)" by code_simp
  have sc: "Scale_run ex_viewer ex_trcalc ?on 0 ([ex_dst], new_pipe 5 ex_cache)
     = Inr ([ex_dst, ?m],
            \<lparr>built = True, visible = True, drawn = False,
               results = [Some 1, None, None, None, None], stop_req = False,
               c_offset = Some (0, 0), c_alpha = None\<rparr>)" by code_simp
  have re: "Reorder_run ex_trcalc ?on ex_state_rgb 1
        ([ex_dst, ?m],
         \<lparr>built = True, visible = True, drawn = False,
            results = [Some 1, None, None, None, None], stop_req = False,
            c_offset = Some (0, 0), c_alpha = None\<rparr>)
     = Inr ([ex_dst, ?m],
            \<lparr>built = True, visible = True, drawn = False,
               results = [Some 1, Some 1, None, None, None], stop_req = False,
               c_offset = Some (0, 0), c_alpha = None\<rparr>)" by code_simp
  have cu: "Cuts_run ex_viewer ex_trcalc ?on 2
        ([ex_dst, ?m],
         \<lparr>built = True, visible = True, drawn = False,
            results = [Some 1, Some 1, None, None, None], stop_req = False,
            c_offset = Some (0, 0), c_alpha = None\<rparr>)
     = Inr ([ex_dst, ?m, ?m],
            \<lparr>built = True, visible = True, drawn = False,
               results = [Some 1, Some 1, Some 2, None, None], stop_req = False,
               c_offset = Some (0, 0), c_alpha = None\<rparr>)" by code_simp
  have rg: "RGBMap_run ex_viewer ex_trcalc ?on ex_state_rgb 3
        ([ex_dst, ?m, ?m],
         \<lparr>built = True, visible = True, drawn = False,
            results = [Some 1, Some 1, Some 2, None, None], stop_req = False,
            c_offset = Some (0, 0), c_alpha = None\<rparr>)
     = Inr ([ex_dst, ?m, ?m, NDArray [2, 2, 3] [1, 1, 1, 2, 2, 2, 3, 3, 3, 4, 4, 4]],
            \<lparr>built = True, visible = True, drawn = False,
               results = [Some 1, Some 1, Some 2, Some 3, None], stop_req = False,
               c_offset = Some (0, 0), c_alpha = None\<rparr>)" by code_simp
  have me: "Merge_run ex_trcalc (ex_cvs None 0 0) ex_state 0 4
        ([NDArray [1, 1, 4] [0, 0, 0, 0], NDArray [1, 1, 3] [10, 20, 30], NDArray [1, 1] [7]],
         \<lparr>built = True, visible = True, drawn = False,
            results = [None, None, None, Some 1, None], stop_req = False,
            c_offset = Some (0, 0), c_alpha = Some 2\<rparr>)
     = Inr ([NDArray [1, 1, 4] [10, 20, 30, 7], NDArray [1, 1, 3] [10, 20, 30], NDArray [1, 1] [7],
             NDArray [1, 1, 4] [10, 20, 30, 7]],
            \<lparr>built = True, visible = True, drawn = True,
               results = [None, None, None, Some 1, None], stop_req = False,
               c_offset = Some (0, 0), c_alpha = Some 2\<rparr>)" by code_simp
  from stages_keep_buffers [of False 90 False ex_rotate_clip ex_state_rgb "(1, 1)" "[ex_dst]" "Some 0"
      "[ex_dst, ex_dst]" "(0, 0)" "Some 1"] rot
  have "take (length [ex_dst]) [ex_dst, ex_dst] = [ex_dst]" by blast
  with rot sc re cu rg me show ?thesis by blast
qed

text \<open>
  Claim C3 fails on the code at Merge. A value image with an alpha band (order MA) runs
  through the mini-pipeline of a viewer whose channel order is RGBA. Scale, Reorder,
  Cuts and RGBMap leave the raster that RGBMap published at address 5, with an alpha
  of 255 in every pixel, and the alpha that Reorder split off at address 2. Merge, run
  on this state, finds four bands in the raster it received and assigns the alpha to
  band 3 of that very raster (\<^verbatim>\<open>rgbarr[..., a_idx] = alpha\<close>), with no copy taken as
  Rotate and Overlays take one before they write: after the run the raster at address 5
  holds 7 in its alpha band. The buffer received from the predecessor was written to.
\<close>

theorem Merge_writes_input_raster:
  "run_stages ex_viewer ex_trcalc (ex_cvs (Some ex_mono_alpha) (11 / 2) (11 / 2)) ex_state 0
     [Scale, Reorder, Cuts, RGBMap] 0
     ([NDArray [2, 2, 4] [0, 0, 0, 0, 0, 0, 0, 0, 0, 0, 0, 0, 0, 0, 0, 0]], new_pipe 5 ex_cache)
   = Inr ([NDArray [2, 2, 4] [0, 0, 0, 0, 0, 0, 0, 0, 0, 0, 0, 0, 0, 0, 0, 0],
           NDArray [2, 2, 2] [1, 7, 2, 7, 3, 7, 4, 7],
           NDArray [2, 2] [7, 7, 7, 7], NDArray [2, 2] [1, 2, 3, 4],
           NDArray [2, 2] [1, 2, 3, 4],
           NDArray [2, 2, 4] [1, 1, 1, 255, 2, 2, 2, 255, 3, 3, 3, 255, 4, 4, 4, 255]],
          \<lparr>built = True, visible = True, drawn = False,
             results = [Some 1, Some 3, Some 4, Some 5, None], stop_req = False,
             c_offset = Some (0, 0), c_alpha = Some 2\<rparr>)
   \<and> Merge_run ex_trcalc (ex_cvs (Some ex_mono_alpha) (11 / 2) (11 / 2)) ex_state 0 4
       ([NDArray [2, 2, 4] [0, 0, 0, 0, 0, 0, 0, 0, 0, 0, 0, 0, 0, 0, 0, 0],
         NDArray [2, 2, 2] [1, 7, 2, 7, 3, 7, 4, 7],
         NDArray [2, 2] [7, 7, 7, 7], NDArray [2, 2] [1, 2, 3, 4],
         NDArray [2, 2] [1, 2, 3, 4],
         NDArray [2, 2, 4] [1, 1, 1, 255, 2, 2, 2, 255, 3, 3, 3, 255, 4, 4, 4, 255]],
        \<lparr>built = True, visible = True, drawn = False,
           results = [Some 1, Some 3, Some 4, Some 5, None], stop_req = False,
           c_offset = Some (0, 0), c_alpha = Some 2\<rparr>)
     = Inr ([NDArray [2, 2, 4] [0, 0, 0, 0, 0, 0, 0, 0, 0, 0, 0, 0, 1, 1, 1, 7],
             NDArray [2, 2, 2] [1, 7, 2, 7, 3, 7, 4, 7],
             NDArray [2, 2] [7, 7, 7, 7], NDArray [2, 2] [1, 2, 3, 4],
             NDArray [2, 2] [1, 2, 3, 4],
             NDArray [2, 2, 4] [1, 1, 1, 7, 2, 2, 2, 7, 3, 3, 3, 7, 4, 4, 4, 7]],
            \<lparr>built = True, visible = True, drawn = True,
               results = [Some 1, Some 3, Some 4, Some 5, None], stop_req = False,
               c_offset = Some (0, 0), c_alpha = Some 2\<rparr>)"
proof -
  have a: "run_stages ex_viewer ex_trcalc (ex_cvs (Some ex_mono_alpha) (11 / 2) (11 / 2)) ex_state 0
     [Scale, Reorder, Cuts, RGBMap] 0
     ([NDArray [2, 2, 4] [0, 0, 0, 0, 0, 0, 0, 0, 0, 0, 0, 0, 0, 0, 0, 0]], new_pipe 5 ex_cache)
   = Inr ([NDArray [2, 2, 4] [0, 0, 0, 0, 0, 0, 0, 0, 0, 0, 0, 0, 0, 0, 0, 0],
           NDArray [2, 2, 2] [1, 7, 2, 7, 3, 7, 4, 7],
           NDArray [2, 2] [7, 7, 7, 7], NDArray [2, 2] [1, 2, 3, 4],
           NDArray [2, 2] [1, 2, 3, 4],
           NDArray [2, 2, 4] [1, 1, 1, 255, 2, 2, 2, 255, 3, 3, 3, 255, 4, 4, 4, 255]],
          \<lparr>built = True, visible = True, drawn = False,
             results = [Some 1, Some 3, Some 4, Some 5, None], stop_req = False,
             c_offset = Some (0, 0), c_alpha = Some 2\<rparr>)"
    by code_simp
  have b: "Merge_run ex_trcalc (ex_cvs (Some ex_mono_alpha) (11 / 2) (11 / 2)) ex_state 0 4
       ([NDArray [2, 2, 4] [0, 0, 0, 0, 0, 0, 0, 0, 0, 0, 0, 0, 0, 0, 0, 0],
         NDArray [2, 2, 2] [1, 7, 2, 7, 3, 7, 4, 7],
         NDArray [2, 2] [7, 7, 7, 7], NDArray [2, 2] [1, 2, 3, 4],
         NDArray [2, 2] [1, 2, 3, 4],
         NDArray [2, 2, 4] [1, 1, 1, 255, 2, 2, 2, 255, 3, 3, 3, 255, 4, 4, 4, 255]],
        \<lparr>built = True, visible = True, drawn = False,
           results = [Some 1, Some 3, Some 4, Some 5, None], stop_req = False,
           c_offset = Some (0, 0), c_alpha = Some 2\<rparr>)
     = Inr ([NDArray [2, 2, 4] [0, 0, 0, 0, 0, 0, 0, 0, 0, 0, 0, 0, 1, 1, 1, 7],
             NDArray [2, 2, 2] [1, 7, 2, 7, 3, 7, 4, 7],
             NDArray [2, 2] [7, 7, 7, 7], NDArray [2, 2] [1, 2, 3, 4],
             NDArray [2, 2] [1, 2, 3, 4],
             NDArray [2, 2, 4] [1, 1, 1, 7, 2, 2, 2, 7, 3, 3, 3, 7, 4, 4, 4, 7]],
            \<lparr>built = True, visible = True, drawn = True,
               results = [Some 1, Some 3, Some 4, Some 5, None], stop_req = False,
               c_offset = Some (0, 0), c_alpha = Some 2\<rparr>)"
    by code_simp
  from a b show ?thesis by blast
qed


text \<open>
  What RGBMap, stage 3 of the mini-pipeline, has published, read before and after the
  run of Merge on that state: the alpha band of the raster differs.
\<close>

theorem Merge_writes_input_raster_witness:
  "published_at 3
     (Inr ([NDArray [2, 2, 4] [0, 0, 0, 0, 0, 0, 0, 0, 0, 0, 0, 0, 0, 0, 0, 0],
            NDArray [2, 2, 2] [1, 7, 2, 7, 3, 7, 4, 7],
            NDArray [2, 2] [7, 7, 7, 7], NDArray [2, 2] [1, 2, 3, 4],
            NDArray [2, 2] [1, 2, 3, 4],
            NDArray [2, 2, 4] [1, 1, 1, 255, 2, 2, 2, 255, 3, 3, 3, 255, 4, 4, 4, 255 :: nat]],
           \<lparr>built = True, visible = True, drawn = False,
              results = [Some 1, Some 3, Some 4, Some 5, None], stop_req = False,
              c_offset = Some (0, 0), c_alpha = Some 2\<rparr>))
     = Some (NDArray [2, 2, 4] [1, 1, 1, 255, 2, 2, 2, 255, 3, 3, 3, 255, 4, 4, 4, 255])
   \<and> published_at 3
       (Merge_run ex_trcalc (ex_cvs (Some ex_mono_alpha) (11 / 2) (11 / 2)) ex_state 0 4
          ([NDArray [2, 2, 4] [0, 0, 0, 0, 0, 0, 0, 0, 0, 0, 0, 0, 0, 0, 0, 0],
            NDArray [2, 2, 2] [1, 7, 2, 7, 3, 7, 4, 7],
            NDArray [2, 2] [7, 7, 7, 7], NDArray [2, 2] [1, 2, 3, 4],
            NDArray [2, 2] [1, 2, 3, 4],
            NDArray [2, 2, 4] [1, 1, 1, 255, 2, 2, 2, 255, 3, 3, 3, 255, 4, 4, 4, 255]],
           \<lparr>built = True, visible = True, drawn = False,
              results = [Some 1, Some 3, Some 4, Some 5, None], stop_req = False,
              c_offset = Some (0, 0), c_alpha = Some 2\<rparr>))
     = Some (NDArray [2, 2, 4] [1, 1, 1, 7, 2, 2, 2, 7, 3, 3, 3, 7, 4, 4, 4, 7])"
  using Merge_writes_input_raster by (simp add: published_at_def)


subsection \<open>The undo records of the RGBMap stage\<close>

lemma push_rerun:
  "undo_log (rerun (push a s)) = undo_log s @ [a]
   \<and> redo_tail (rerun (push a s)) = []
   \<and> calls (rerun (push a s)) = calls s @ [PushCall a, RunFromCall stagename]"
  by (simp add: rerun_def push_def)

text \<open>
  The callbacks for the color map, the intensity map and the distribution algorithm,
  when they return, have pushed one action with the old and the new name, and then
  re-run the pipeline from the stage.
\<close>

lemma set_cmap_cb_pushes_one:
  assumes "set_cmap_cb registry index s = Inr s'"
  shows "undo_log s' = undo_log s @
           [\<lparr>act_stage = stagename, act_old = [(''cmap_name'', PStr (cmap_name s))],
             act_new = [(''cmap_name'', PStr (cmap_name s'))],
             act_descr = Descr ''rgbmap / change cmap''\<rparr>]
         \<and> calls s' = calls s @
           [PushCall \<lparr>act_stage = stagename, act_old = [(''cmap_name'', PStr (cmap_name s))],
             act_new = [(''cmap_name'', PStr (cmap_name s'))],
             act_descr = Descr ''rgbmap / change cmap''\<rparr>, RunFromCall stagename]"
  using assms
  by (auto simp: set_cmap_cb_def set_cmap_name_def Let_def rerun_def push_def
           split: if_splits sum.splits option.splits)

lemma set_imap_cb_pushes_one:
  assumes "set_imap_cb registry index s = Inr s'"
  shows "undo_log s' = undo_log s @
           [\<lparr>act_stage = stagename, act_old = [(''imap_name'', PStr (imap_name s))],
             act_new = [(''imap_name'', PStr (imap_name s'))],
             act_descr = Descr ''rgbmap / change imap''\<rparr>]
         \<and> calls s' = calls s @
           [PushCall \<lparr>act_stage = stagename, act_old = [(''imap_name'', PStr (imap_name s))],
             act_new = [(''imap_name'', PStr (imap_name s'))],
             act_descr = Descr ''rgbmap / change imap''\<rparr>, RunFromCall stagename]"
  using assms
  by (auto simp: set_imap_cb_def set_imap_name_def Let_def rerun_def push_def
           split: if_splits sum.splits option.splits)

lemma set_calg_cb_pushes_one:
  assumes "set_calg_cb index s = Inr s'"
  shows "undo_log s' = undo_log s @
           [\<lparr>act_stage = stagename, act_old = [(''calg_name'', PStr (calg_name s))],
             act_new = [(''calg_name'', PStr (calg_name s'))],
             act_descr = Descr ''rgbmap / change calg''\<rparr>]
         \<and> calls s' = calls s @
           [PushCall \<lparr>act_stage = stagename, act_old = [(''calg_name'', PStr (calg_name s))],
             act_new = [(''calg_name'', PStr (calg_name s'))],
             act_descr = Descr ''rgbmap / change calg''\<rparr>, RunFromCall stagename]"
  using assms
  by (auto simp: set_calg_cb_def set_calg_name_def Let_def rerun_def push_def
           split: if_splits sum.splits option.splits)

text \<open>The callbacks for rotation, inversion, contrast and brightness push one action
  each.\<close>

lemma value_callbacks_push_one:
  "undo_log (rotate_cmap_cb int_pct val s) = undo_log s @
      [\<lparr>act_stage = stagename, act_old = [(''rotate_cmap'', PNum (rotate_cmap_pct s))],
        act_new = [(''rotate_cmap'', PNum (val / 100))],
        act_descr = DescrNum ''rgbmap / rotate cmap: '' (val / 100)\<rparr>]"
  "undo_log (invert_cmap_cb tf s) = undo_log s @
      [\<lparr>act_stage = stagename, act_old = [(''invert_cmap'', PBool (invert_cmap s))],
        act_new = [(''invert_cmap'', PBool tf)],
        act_descr = DescrBool ''rgbmap / invert cmap '' tf\<rparr>]"
  "undo_log (contrast_set_cb int_pct val s) = undo_log s @
      [\<lparr>act_stage = stagename, act_old = [(''contrast'', PNum (contrast s))],
        act_new = [(''contrast'', PNum (val / 100))],
        act_descr = DescrNum ''rgbmap / contrast: '' (val / 100)\<rparr>]"
  "undo_log (brightness_set_cb int_pct val s) = undo_log s @
      [\<lparr>act_stage = stagename, act_old = [(''brightness'', PNum (brightness s))],
        act_new = [(''brightness'', PNum (val / 100))],
        act_descr = DescrNum ''rgbmap / brightness: '' (val / 100)\<rparr>]"
  by (simp_all add: rotate_cmap_cb_def invert_cmap_cb_def contrast_set_cb_def brightness_set_cb_def
        set_rotate_cmap_def set_invert_cmap_def set_contrast_def set_brightness_def
        Let_def rerun_def push_def)

text \<open>
  Claim C9 fails on the code at the copy-from-viewer callback: it changes the settings
  of the stage's RGB mapper and re-runs the pipeline from the stage, and pushes no
  action. The undo log after the call is the undo log before it; the only call made on
  the pipeline is the re-run.
\<close>

theorem copy_from_viewer_pushes_nothing:
  "undo_log (copy_from_viewer_cb viewer_settings s) = undo_log s
   \<and> calls (copy_from_viewer_cb viewer_settings s) = calls s @ [RunFromCall stagename]"
  by (simp add: copy_from_viewer_cb_def rerun_def)

end
